theory Spec2Isabelle
  imports Main
begin

section \<open>The remapping-weight driver \<^verbatim>\<open>tools/make_remap_weights.py\<close>\<close>

text \<open>
  The script is orchestration code: it creates temporary files, asks the grid library to
  write grid descriptions, spawns two external programs and edits a NetCDF file. The
  embedding keeps the control flow of every function of the script and threads an explicit
  world (file system, output streams, a log of the external calls) through it. Exceptions
  are values of \<open>error + 'a\<close>. What the script does not contain (the grid library, the
  two external programs, the random names of \<^verbatim>\<open>tempfile\<close>) is either a field of the
  environment record or a definition marked as modelled from the spec.
\<close>

subsection \<open>Exceptions and the exception monad\<close>

datatype error =
    NameError string
  | KeyError string
  | IndexError string
  | TypeError string
  | ValueError string
  | IOError string
  | OSError string
  | FileExistsError string
  | RuntimeError string
  | CalledProcessError int string

text \<open>A computation takes the world and returns an exception or a value, and the new world.\<close>

type_synonym ('a, 's) comp = "'s \<Rightarrow> (error + 'a) \<times> 's"

definition ret :: "'a \<Rightarrow> ('a, 's) comp" where
  "ret x = (\<lambda>s. (Inr x, s))"

definition raise :: "error \<Rightarrow> ('a, 's) comp" where
  "raise e = (\<lambda>s. (Inl e, s))"

definition bind :: "('a, 's) comp \<Rightarrow> ('a \<Rightarrow> ('b, 's) comp) \<Rightarrow> ('b, 's) comp" where
  "bind m f = (\<lambda>s. case m s of (Inl e, s') \<Rightarrow> (Inl e, s') | (Inr x, s') \<Rightarrow> f x s')"

text \<open>A statement that cannot fail: only the world changes.\<close>

definition effect :: "('s \<Rightarrow> 's) \<Rightarrow> (unit, 's) comp" where
  "effect g = (\<lambda>s. (Inr (), g s))"

subsection \<open>Strings: \<^verbatim>\<open>str\<close>, \<^verbatim>\<open>os.path.join\<close>, \<^verbatim>\<open>shlex.split\<close>\<close>

definition digit_char :: "nat \<Rightarrow> char" where
  "digit_char d = ''0123456789'' ! d"

fun str_nat :: "nat \<Rightarrow> string" where
  "str_nat n = (if n < 10 then [digit_char n] else str_nat (n div 10) @ [digit_char (n mod 10)])"

declare str_nat.simps [simp del]

definition str_int :: "int \<Rightarrow> string" where
  "str_int i = (if i < 0 then CHR ''-'' # str_nat (nat (- i)) else str_nat (nat i))"

text \<open>\<^verbatim>\<open>'{}'.format(x)\<close> for an \<open>x\<close> that is a string or \<^verbatim>\<open>None\<close>.\<close>

definition format_opt :: "string option \<Rightarrow> string" where
  "format_opt x = (case x of None \<Rightarrow> ''None'' | Some s \<Rightarrow> s)"

text \<open>\<^verbatim>\<open>posixpath.join\<close>: an absolute component discards what came before it.\<close>

definition join2 :: "string \<Rightarrow> string \<Rightarrow> string" where
  "join2 a b =
     (if b \<noteq> [] \<and> hd b = CHR ''/'' then b
      else if a = [] \<or> last a = CHR ''/'' then a @ b
      else a @ ''/'' @ b)"

definition path_join :: "string \<Rightarrow> string list \<Rightarrow> string" where
  "path_join a ps = foldl join2 a ps"

text \<open>
  \<^verbatim>\<open>shlex.split\<close> (POSIX mode, no comments, split on white space only). The state says
  whether a token has been started and which quotation is open; \<open>acc\<close> is the token so far.
\<close>

definition is_space :: "char \<Rightarrow> bool" where
  "is_space c = (c = CHR '' '' \<or> c = CHR 0x09 \<or> c = CHR 0x0D \<or> c = CHR 0x0A)"

definition squote :: char where "squote = CHR 0x27"
definition dquote :: char where "dquote = CHR 0x22"
definition backslash :: char where "backslash = CHR 0x5C"

datatype lex_state = Between | InWord | InSingle | InDouble

definition emit :: "string \<Rightarrow> error + string list \<Rightarrow> error + string list" where
  "emit tok r = (case r of Inl e \<Rightarrow> Inl e | Inr ts \<Rightarrow> Inr (tok # ts))"

fun shlex :: "lex_state \<Rightarrow> string \<Rightarrow> string \<Rightarrow> error + string list" where
  "shlex Between acc [] = Inr []"
| "shlex InWord acc [] = Inr [acc]"
| "shlex InSingle acc [] = Inl (ValueError ''No closing quotation'')"
| "shlex InDouble acc [] = Inl (ValueError ''No closing quotation'')"
| "shlex Between acc (c # cs) =
     (if is_space c then shlex Between [] cs
      else if c = backslash then
        (case cs of [] \<Rightarrow> Inl (ValueError ''No escaped character'')
                  | d # ds \<Rightarrow> shlex InWord [d] ds)
      else if c = squote then shlex InSingle [] cs
      else if c = dquote then shlex InDouble [] cs
      else shlex InWord [c] cs)"
| "shlex InWord acc (c # cs) =
     (if is_space c then emit acc (shlex Between [] cs)
      else if c = backslash then
        (case cs of [] \<Rightarrow> Inl (ValueError ''No escaped character'')
                  | d # ds \<Rightarrow> shlex InWord (acc @ [d]) ds)
      else if c = squote then shlex InSingle acc cs
      else if c = dquote then shlex InDouble acc cs
      else shlex InWord (acc @ [c]) cs)"
| "shlex InSingle acc (c # cs) =
     (if c = squote then shlex InWord acc cs else shlex InSingle (acc @ [c]) cs)"
| "shlex InDouble acc (c # cs) =
     (if c = dquote then shlex InWord acc cs
      else if c = backslash then
        (case cs of [] \<Rightarrow> Inl (ValueError ''No escaped character'')
                  | d # ds \<Rightarrow>
                      if d = backslash \<or> d = dquote then shlex InDouble (acc @ [d]) ds
                      else shlex InDouble (acc @ [c, d]) ds)
      else shlex InDouble (acc @ [c]) cs)"

definition shlex_split :: "string \<Rightarrow> error + string list" where
  "shlex_split s = shlex Between [] s"

subsection \<open>Grids, NetCDF files and the world\<close>

text \<open>
  A grid object of the grid library: the class that built it, the files it was built from
  and its land-sea mask \<^verbatim>\<open>mask_t\<close>, a two-dimensional integer array.
\<close>

datatype grid_class = Core2Grid | Jra55Grid | Jra55RiverGrid | MomGrid

record grid =
  g_class :: grid_class
  g_files :: "string list"
  mask_t :: "int list list"

text \<open>\<^verbatim>\<open>np.zeros_like(m, dtype=int)\<close>: the same shape, every entry zero.\<close>

definition zeros_like :: "int list list \<Rightarrow> int list list" where
  "zeros_like m = map (map (\<lambda>_. 0)) m"

text \<open>
  A NetCDF file: its dimensions (name and size, in order) and its variables. A variable
  refers to its dimensions by position, as NetCDF does by identifier, so that renaming a
  dimension leaves every variable as it is. The data is row-major; a cell that was never
  written is \<open>None\<close>.
\<close>

record 'v ncvar =
  var_name :: string
  var_dims :: "nat list"
  var_data :: "'v option list"

record 'v ncfile =
  nc_dims :: "(string \<times> nat) list"
  nc_vars :: "'v ncvar list"

datatype 'v fdata = Text string | Scrip grid "int list list" | Nc "'v ncfile"

text \<open>What the script prints, and the calls it makes outside itself.\<close>

datatype printed = Line string | ListRepr "string list" | Usage | Traceback error

datatype call = WriteScrip string grid "int list list" | Spawn "string list"

record 'v world =
  fs :: "string \<Rightarrow> 'v fdata option"
  rng :: nat
  stdout :: "printed list"
  stderr :: "printed list"
  calls :: "call list"

text \<open>What one run of the external weight generator did.\<close>

record 'v gen_result =
  gen_ret :: int
  gen_out :: string
  gen_weights :: "'v ncfile option"
  gen_log :: "string option"

text \<open>
  The environment: everything the script takes from outside. \<open>rand_name\<close> is the stream
  of random names of \<^verbatim>\<open>tempfile\<close>, \<open>read_mask\<close> is what a constructor of the grid
  library reads from its files, \<open>weight_gen\<close> is the behaviour of the external weight
  generator on a command line (\<open>None\<close>: the program cannot be started),
  \<open>rename_diag\<close> is what a failed run of the rename utility prints.
\<close>

record 'v env =
  tmpdir :: string
  rand_name :: "nat \<Rightarrow> string"
  cpu_count :: nat
  script_dir :: string
  read_mask :: "grid_class \<Rightarrow> string list \<Rightarrow> (string \<Rightarrow> 'v fdata option) \<Rightarrow> error + int list list"
  weight_gen :: "string list \<Rightarrow> (string \<Rightarrow> 'v fdata option) \<Rightarrow> 'v gen_result option"
  ncrename_installed :: bool
  rename_diag :: "string list \<Rightarrow> string"
  raw_text :: "'v fdata \<Rightarrow> string"

definition print :: "printed \<Rightarrow> 'v world \<Rightarrow> 'v world" where
  "print x w = w\<lparr>stdout := stdout w @ [x]\<rparr>"

definition eprint :: "printed \<Rightarrow> 'v world \<Rightarrow> 'v world" where
  "eprint x w = w\<lparr>stderr := stderr w @ [x]\<rparr>"

subsection \<open>\<^verbatim>\<open>tempfile\<close>, \<^verbatim>\<open>os\<close>, \<^verbatim>\<open>shutil\<close>\<close>

definition TMP_MAX :: nat where
  "TMP_MAX = 10000"

definition tmp_path :: "'v env \<Rightarrow> string \<Rightarrow> nat \<Rightarrow> string" where
  "tmp_path env suffix i = join2 (tmpdir env) (''tmp'' @ rand_name env i @ suffix)"

text \<open>
  \<^verbatim>\<open>mkstemp\<close> draws names until one does not exist, at most \<open>TMP_MAX\<close> times. The
  result is the name and the position in the stream after it.
\<close>

fun first_free :: "'v env \<Rightarrow> string \<Rightarrow> nat \<Rightarrow> nat \<Rightarrow> (string \<Rightarrow> 'v fdata option) \<Rightarrow> (string \<times> nat) option" where
  "first_free env suffix 0 i files = None"
| "first_free env suffix (Suc n) i files =
     (if files (tmp_path env suffix i) = None then Some (tmp_path env suffix i, Suc i)
      else first_free env suffix n (Suc i) files)"

definition mkstemp :: "'v env \<Rightarrow> string \<Rightarrow> (string, 'v world) comp" where
  "mkstemp env suffix = (\<lambda>w.
     case first_free env suffix TMP_MAX (rng w) (fs w) of
       None \<Rightarrow> (Inl (FileExistsError ''No usable temporary file name found''),
                w\<lparr>rng := rng w + TMP_MAX\<rparr>)
     | Some (name, k) \<Rightarrow> (Inr name, w\<lparr>fs := (fs w)(name \<mapsto> Text []), rng := k\<rparr>))"

definition os_remove :: "string \<Rightarrow> (unit, 'v world) comp" where
  "os_remove p = (\<lambda>w.
     if fs w p = None then (Inl (OSError p), w)
     else (Inr (), w\<lparr>fs := (fs w)(p := None)\<rparr>))"

definition os_path_exists :: "'v world \<Rightarrow> string \<Rightarrow> bool" where
  "os_path_exists w p = (fs w p \<noteq> None)"

text \<open>\<^verbatim>\<open>shutil.move\<close> of a file onto a path that is not a directory: a rename.\<close>

definition shutil_move :: "string \<Rightarrow> string \<Rightarrow> (unit, 'v world) comp" where
  "shutil_move src dst = (\<lambda>w.
     case fs w src of
       None \<Rightarrow> (Inl (IOError src), w)
     | Some f \<Rightarrow> (Inr (), w\<lparr>fs := ((fs w)(src := None))(dst \<mapsto> f)\<rparr>))"

text \<open>\<^verbatim>\<open>open(p).read()\<close>: the text of a text file, the raw bytes of any other file.\<close>

definition read_text :: "'v env \<Rightarrow> string \<Rightarrow> (string, 'v world) comp" where
  "read_text env p = (\<lambda>w.
     case fs w p of
       None \<Rightarrow> (Inl (IOError p), w)
     | Some (Text s) \<Rightarrow> (Inr s, w)
     | Some f \<Rightarrow> (Inr (raw_text env f), w))"

subsection \<open>The grid library\<close>

text \<open>
  Modelled from the spec: the grid library is not part of the script. A constructor reads
  its files and yields a grid object or fails; \<^verbatim>\<open>write_scrip\<close> serialises the grid to a
  grid-description file, with the grid's own mask unless a mask is given.
\<close>

definition construct :: "'v env \<Rightarrow> grid_class \<Rightarrow> string list \<Rightarrow> (grid, 'v world) comp" where
  "construct env cls files = (\<lambda>w.
     case read_mask env cls files (fs w) of
       Inl e \<Rightarrow> (Inl e, w)
     | Inr m \<Rightarrow> (Inr \<lparr>g_class = cls, g_files = files, mask_t = m\<rparr>, w))"

definition write_scrip :: "grid \<Rightarrow> string \<Rightarrow> int list list option \<Rightarrow> (unit, 'v world) comp" where
  "write_scrip g p override = effect (\<lambda>w.
     let m = (case override of None \<Rightarrow> mask_t g | Some m' \<Rightarrow> m')
     in w\<lparr>fs := (fs w)(p \<mapsto> Scrip g m), calls := calls w @ [WriteScrip p g m]\<rparr>)"

subsection \<open>The external programs\<close>

definition log_name :: string where
  "log_name = ''PET0.RegridWeightGen.Log''"

fun opt_arg :: "string \<Rightarrow> string list \<Rightarrow> string option" where
  "opt_arg k [] = None"
| "opt_arg k [x] = None"
| "opt_arg k (x # y # ys) = (if x = k then Some y else opt_arg k (y # ys))"

text \<open>
  Modelled from the spec: the weight generator is an external executable accepting
  \<^verbatim>\<open>-s src -d dst -m method -w out\<close>. A run writes at most the file named after
  \<^verbatim>\<open>-w\<close> and its log in the current directory; what it writes and how it exits is the
  environment's \<open>weight_gen\<close>.
\<close>

definition run_weight_gen :: "'v env \<Rightarrow> string list \<Rightarrow> (string, 'v world) comp" where
  "run_weight_gen env cmd = (\<lambda>w.
     let w1 = w\<lparr>calls := calls w @ [Spawn cmd]\<rparr> in
     case weight_gen env cmd (fs w) of
       None \<Rightarrow> (Inl (OSError (case cmd of [] \<Rightarrow> [] | c # _ \<Rightarrow> c)), w1)
     | Some r \<Rightarrow>
         let files1 = (case (gen_weights r, opt_arg ''-w'' cmd) of
                         (Some f, Some p) \<Rightarrow> (fs w1)(p \<mapsto> Nc f)
                       | _ \<Rightarrow> fs w1);
             files2 = (case gen_log r of
                         None \<Rightarrow> files1
                       | Some t \<Rightarrow> files1(log_name \<mapsto> Text t));
             w2 = w1\<lparr>fs := files2\<rparr>
         in if gen_ret r = 0 then (Inr (gen_out r), w2)
            else (Inl (CalledProcessError (gen_ret r) (gen_out r)), w2))"

text \<open>
  Modelled from the spec: the rename utility takes old-name,new-name pairs for dimensions
  (\<^verbatim>\<open>-d\<close>) and variables (\<^verbatim>\<open>-v\<close>), an input file and an output file. A pair
  whose old name is missing, or whose new name is taken, makes the run fail. A failed run
  leaves no output file.
\<close>

datatype rename = RenDim string string | RenVar string string

definition split_comma :: "string \<Rightarrow> (string \<times> string) option" where
  "split_comma a =
     (if CHR '','' \<in> set a
      then Some (takeWhile (\<lambda>c. c \<noteq> CHR '','') a, tl (dropWhile (\<lambda>c. c \<noteq> CHR '','') a))
      else None)"

fun ncrename_args :: "string list \<Rightarrow> (rename list \<times> string list) option" where
  "ncrename_args [] = Some ([], [])"
| "ncrename_args [t] = (if t = ''-d'' \<or> t = ''-v'' then None else Some ([], [t]))"
| "ncrename_args (t # a # ts) =
     (if t = ''-d'' \<or> t = ''-v'' then
        (case (split_comma a, ncrename_args ts) of
           (Some (old, new), Some (rs, ps)) \<Rightarrow>
             Some ((if t = ''-d'' then RenDim old new else RenVar old new) # rs, ps)
         | _ \<Rightarrow> None)
      else (case ncrename_args (a # ts) of
              Some (rs, ps) \<Rightarrow> Some (rs, t # ps)
            | None \<Rightarrow> None))"

definition rename_dim :: "string \<Rightarrow> string \<Rightarrow> 'v ncfile \<Rightarrow> 'v ncfile option" where
  "rename_dim old new f =
     (if old \<notin> fst ` set (nc_dims f) \<or> new \<in> fst ` set (nc_dims f) then None
      else Some (f\<lparr>nc_dims := map (\<lambda>(n, k). (if n = old then new else n, k)) (nc_dims f)\<rparr>))"

definition rename_var :: "string \<Rightarrow> string \<Rightarrow> 'v ncfile \<Rightarrow> 'v ncfile option" where
  "rename_var old new f =
     (if old \<notin> var_name ` set (nc_vars f) \<or> new \<in> var_name ` set (nc_vars f) then None
      else Some (f\<lparr>nc_vars := map (\<lambda>v. if var_name v = old then v\<lparr>var_name := new\<rparr> else v)
                                  (nc_vars f)\<rparr>))"

fun apply_renames :: "rename list \<Rightarrow> 'v ncfile \<Rightarrow> 'v ncfile option" where
  "apply_renames [] f = Some f"
| "apply_renames (RenDim old new # rs) f =
     (case rename_dim old new f of None \<Rightarrow> None | Some f' \<Rightarrow> apply_renames rs f')"
| "apply_renames (RenVar old new # rs) f =
     (case rename_var old new f of None \<Rightarrow> None | Some f' \<Rightarrow> apply_renames rs f')"

definition ncrename_out :: "string list \<Rightarrow> string option" where
  "ncrename_out argv =
     (case ncrename_args argv of Some (rs, [inp, out]) \<Rightarrow> Some out | _ \<Rightarrow> None)"

definition ncrename_result :: "string list \<Rightarrow> (string \<Rightarrow> 'v fdata option) \<Rightarrow> 'v ncfile option" where
  "ncrename_result argv files =
     (case ncrename_args argv of
        Some (rs, [inp, out]) \<Rightarrow>
          (case files inp of Some (Nc f) \<Rightarrow> apply_renames rs f | _ \<Rightarrow> None)
      | _ \<Rightarrow> None)"

definition run_ncrename :: "'v env \<Rightarrow> string list \<Rightarrow> (string, 'v world) comp" where
  "run_ncrename env argv = (\<lambda>w.
     let w1 = w\<lparr>calls := calls w @ [Spawn (''ncrename'' # argv)]\<rparr> in
     if \<not> ncrename_installed env then (Inl (OSError ''ncrename''), w1)
     else case (ncrename_result argv (fs w), ncrename_out argv) of
            (Some f', Some out) \<Rightarrow> (Inr [], w1\<lparr>fs := (fs w1)(out \<mapsto> Nc f')\<rparr>)
          | _ \<Rightarrow> (Inl (CalledProcessError 1 (rename_diag env argv)), w1))"

text \<open>
  \<^verbatim>\<open>subprocess.check_output\<close>: the output of the program if it exits with 0, the
  exception \<^verbatim>\<open>CalledProcessError\<close> otherwise.
\<close>

definition check_output :: "'v env \<Rightarrow> string list \<Rightarrow> (string, 'v world) comp" where
  "check_output env cmd =
     (case cmd of
        [] \<Rightarrow> raise (IndexError ''list index out of range'')
      | prog # argv \<Rightarrow> if prog = ''ncrename'' then run_ncrename env argv
                       else run_weight_gen env cmd)"

subsection \<open>The NetCDF library\<close>

text \<open>
  Modelled from the spec: the NetCDF library is external. A data set is opened from a path
  that holds a NetCDF file; variables are looked up by name and dimensions by name.
\<close>

fun dim_pos :: "string \<Rightarrow> (string \<times> nat) list \<Rightarrow> nat option" where
  "dim_pos n [] = None"
| "dim_pos n ((m, k) # ds) = (if m = n then Some 0 else map_option Suc (dim_pos n ds))"

fun dim_ids :: "string list \<Rightarrow> (string \<times> nat) list \<Rightarrow> error + nat list" where
  "dim_ids [] ds = Inr []"
| "dim_ids (n # ns) ds =
     (case dim_pos n ds of
        None \<Rightarrow> Inl (KeyError n)
      | Some i \<Rightarrow> (case dim_ids ns ds of Inl e \<Rightarrow> Inl e | Inr js \<Rightarrow> Inr (i # js)))"

definition dim_size :: "'v ncfile \<Rightarrow> nat \<Rightarrow> nat" where
  "dim_size f i = snd (nc_dims f ! i)"

definition find_var :: "string \<Rightarrow> 'v ncfile \<Rightarrow> 'v ncvar option" where
  "find_var n f = find (\<lambda>v. var_name v = n) (nc_vars f)"

definition lift :: "error + 'a \<Rightarrow> ('a, 's) comp" where
  "lift r = (\<lambda>s. (r, s))"

definition open_dataset :: "string option \<Rightarrow> ('v ncfile, 'v world) comp" where
  "open_dataset p = (\<lambda>w.
     case p of
       None \<Rightarrow> (Inl (TypeError ''expected str, bytes or os.PathLike object, not NoneType''), w)
     | Some q \<Rightarrow> (case fs w q of Some (Nc f) \<Rightarrow> (Inr f, w) | _ \<Rightarrow> (Inl (IOError q), w)))"

definition store :: "string \<Rightarrow> 'v ncfile \<Rightarrow> 'v world \<Rightarrow> 'v world" where
  "store p f w = w\<lparr>fs := (fs w)(p \<mapsto> Nc f)\<rparr>"

text \<open>
  \<^verbatim>\<open>createVariable\<close>: a new variable over existing dimensions, no cell written yet. The
  result is the file and the position of the new variable in it.
\<close>

definition createVariable :: "string \<Rightarrow> string list \<Rightarrow> 'v ncfile \<Rightarrow> error + ('v ncfile \<times> nat)" where
  "createVariable name dims f =
     (case dim_ids dims (nc_dims f) of
        Inl e \<Rightarrow> Inl e
      | Inr ids \<Rightarrow>
          if find_var name f \<noteq> None then Inl (RuntimeError ''NetCDF: String match to name in use'')
          else Inr (f\<lparr>nc_vars := nc_vars f @
                       [\<lparr>var_name = name, var_dims = ids,
                         var_data = replicate (prod_list (map (dim_size f) ids)) None\<rparr>]\<rparr>,
                    length (nc_vars f)))"

definition getvar :: "string \<Rightarrow> 'v ncfile \<Rightarrow> error + 'v ncvar" where
  "getvar n f = (case find_var n f of None \<Rightarrow> Inl (KeyError n) | Some v \<Rightarrow> Inr v)"

text \<open>
  \<^verbatim>\<open>m[:, 0] = vals\<close> on a two-dimensional array of \<open>ncols\<close> columns: a single value
  is broadcast to every row, any other length must be the number of rows. The script
  assigns to the variable it has just created, which has two dimensions.
\<close>

definition broadcast :: "nat \<Rightarrow> 'a list \<Rightarrow> error + 'a list" where
  "broadcast nrows vals =
     (if length vals = nrows then Inr vals
      else if length vals = 1 then Inr (replicate nrows (hd vals))
      else Inl (ValueError ''shape mismatch''))"

definition set_column0 :: "nat \<Rightarrow> 'a list \<Rightarrow> 'a list \<Rightarrow> 'a list" where
  "set_column0 ncols vals data =
     map (\<lambda>k. if k mod ncols = 0 then vals ! (k div ncols) else data ! k) [0..<length data]"

definition assign_column0 :: "nat \<Rightarrow> 'v option list \<Rightarrow> 'v ncfile \<Rightarrow> error + 'v ncfile" where
  "assign_column0 i vals f =
     (let v = nc_vars f ! i;
          nrows = dim_size f (var_dims v ! 0);
          ncols = dim_size f (var_dims v ! 1)
      in if ncols = 0 then Inl (IndexError ''index 0 is out of bounds'')
         else case broadcast nrows vals of
                Inl e \<Rightarrow> Inl e
              | Inr vals' \<Rightarrow>
                  Inr (f\<lparr>nc_vars := (nc_vars f)[i := v\<lparr>var_data := set_column0 ncols vals' (var_data v)\<rparr>]\<rparr>))"

text \<open>Column \<open>j\<close> of row-major data with \<open>ncols\<close> columns.\<close>

definition column :: "nat \<Rightarrow> nat \<Rightarrow> 'a list \<Rightarrow> 'a list" where
  "column j ncols data = map (\<lambda>i. data ! (i * ncols + j)) [0..<length data div ncols]"

subsection \<open>\<^verbatim>\<open>convert_to_scrip_output\<close>\<close>

text \<open>The command line of line 36, before \<^verbatim>\<open>shlex.split\<close>.\<close>

definition rename_cmd :: "string \<Rightarrow> string \<Rightarrow> string" where
  "rename_cmd weights new_weights =
     ''ncrename -d n_a,src_grid_size -d n_b,dst_grid_size -d n_s,num_links '' @
     ''-d nv_a,src_grid_corners -d nv_b,dst_grid_corners '' @
     ''-v yc_a,src_grid_center_lat -v yc_b,dst_grid_center_lat '' @
     ''-v xc_a,src_grid_center_lon -v xc_b,dst_grid_center_lon '' @
     ''-v yv_a,src_grid_corner_lat -v xv_a,src_grid_corner_lon '' @
     ''-v yv_b,dst_grid_corner_lat -v xv_b,dst_grid_corner_lon '' @
     ''-v mask_a,src_grid_imask -v mask_b,dst_grid_imask '' @
     ''-v area_a,src_grid_area -v area_b,dst_grid_area '' @
     ''-v frac_a,src_grid_frac -v frac_b,dst_grid_frac '' @
     ''-v col,src_address -v row,dst_address '' @ weights @ '' '' @ new_weights"

text \<open>
  Lines 44 to 46: both files are opened, the variable is created in the new file and its
  first column is assigned. The new file is opened for update, so what was done before an
  exception stays in it.
\<close>

definition fix_remap_matrix :: "string option \<Rightarrow> string \<Rightarrow> (unit, 'v world) comp" where
  "fix_remap_matrix weights new_weights =
     bind (open_dataset weights) (\<lambda>f_old.
     bind (open_dataset (Some new_weights)) (\<lambda>f_new.
     bind (lift (createVariable ''remap_matrix'' [''num_links'', ''num_wgts''] f_new)) (\<lambda>(f1, remap_matrix).
     bind (effect (store new_weights f1)) (\<lambda>_.
     bind (lift (getvar ''S'' f_old)) (\<lambda>S.
     bind (lift (assign_column0 remap_matrix (var_data S) f1)) (\<lambda>f2.
     effect (store new_weights f2)))))))"

text \<open>Lines 38 to 41: only \<^verbatim>\<open>CalledProcessError\<close> is caught, and its output printed.\<close>

definition try_rename :: "'v env \<Rightarrow> string \<Rightarrow> (unit, 'v world) comp" where
  "try_rename env cmd = (\<lambda>w.
     case bind (lift (shlex_split cmd)) (check_output env) w of
       (Inl (CalledProcessError rc out), w') \<Rightarrow> (Inr (), eprint (Line out) w')
     | (Inl e, w') \<Rightarrow> (Inl e, w')
     | (Inr _, w') \<Rightarrow> (Inr (), w'))"

definition convert_to_scrip_output :: "'v env \<Rightarrow> string option \<Rightarrow> (string, 'v world) comp" where
  "convert_to_scrip_output env weights =
     bind (mkstemp env ''.nc'') (\<lambda>new_weights.
     bind (os_remove new_weights) (\<lambda>_.
     bind (try_rename env (rename_cmd (format_opt weights) new_weights)) (\<lambda>_.
     bind (fix_remap_matrix weights new_weights) (\<lambda>_.
     bind (case weights of
             None \<Rightarrow> raise (TypeError ''remove: path should be string, not NoneType'')
           | Some p \<Rightarrow> os_remove p) (\<lambda>_.
     ret new_weights)))))"

subsection \<open>\<^verbatim>\<open>create_weights\<close>\<close>

text \<open>Lines 92 to 101: the handler of \<^verbatim>\<open>CalledProcessError\<close>.\<close>

definition report_failure :: "'v env \<Rightarrow> int \<Rightarrow> string \<Rightarrow> (string option, 'v world) comp" where
  "report_failure env returncode out =
     bind (effect (eprint (Line (''Error: ESMF_RegridWeightGen failed ret '' @ str_int returncode)))) (\<lambda>_.
     bind (effect (eprint (Line out))) (\<lambda>_.
     bind (\<lambda>w. if os_path_exists w log_name
               then bind (effect (eprint (Line (''Contents of '' @ log_name @ '':'')))) (\<lambda>_.
                    bind (read_text env log_name) (\<lambda>t.
                    effect (eprint (Line t)))) w
               else (Inr (), w)) (\<lambda>_.
     ret None)))"

text \<open>Lines 73 to 89: the command line of the weight generator.\<close>

definition regrid_cmd ::
  "'v env \<Rightarrow> 'v world \<Rightarrow> string \<Rightarrow> string \<Rightarrow> string \<Rightarrow> string \<Rightarrow> bool \<Rightarrow> string list" where
  "regrid_cmd env w src_grid_scrip dest_grid_scrip method regrid_weights ignore_unmapped =
     (let ignore = (if ignore_unmapped then [''--ignore_unmapped''] else []);
          mpirun = [''mpirun'', ''-np'', str_nat (cpu_count env div 2)];
          contrib = path_join (script_dir env) [''contrib'', ''bin'', ''ESMF_RegridWeightGen''];
          esmf = (if os_path_exists w contrib then contrib else ''ESMF_RegridWeightGen'')
      in mpirun @ [esmf] @
         [''-s'', src_grid_scrip, ''-d'', dest_grid_scrip, ''-m'', method,
          ''-w'', regrid_weights] @ ignore)"

text \<open>Lines 85 to 106: the run of the weight generator, its handler, and the clean-up.\<close>

definition run_regrid ::
  "'v env \<Rightarrow> string \<Rightarrow> string \<Rightarrow> string \<Rightarrow> string \<Rightarrow> bool \<Rightarrow> (string option, 'v world) comp" where
  "run_regrid env src_grid_scrip dest_grid_scrip method regrid_weights ignore_unmapped = (\<lambda>w.
     let cmd = regrid_cmd env w src_grid_scrip dest_grid_scrip method regrid_weights ignore_unmapped
     in case bind (effect (print (ListRepr cmd))) (\<lambda>_. check_output env cmd) w of
          (Inl (CalledProcessError returncode out), w') \<Rightarrow> report_failure env returncode out w'
        | (Inl e, w') \<Rightarrow> (Inl e, w')
        | (Inr _, w') \<Rightarrow>
            bind (os_remove src_grid_scrip) (\<lambda>_.
            bind (os_remove dest_grid_scrip) (\<lambda>_.
            ret (Some regrid_weights))) w')"

definition create_weights ::
  "'v env \<Rightarrow> grid \<Rightarrow> grid \<Rightarrow> string \<Rightarrow> bool \<Rightarrow> bool \<Rightarrow> bool \<Rightarrow> (string option, 'v world) comp" where
  "create_weights env src_grid dest_grid method ignore_unmapped unmasked_src unmasked_dest =
     bind (mkstemp env ''.nc'') (\<lambda>src_grid_scrip.
     bind (mkstemp env ''.nc'') (\<lambda>dest_grid_scrip.
     bind (mkstemp env ''.nc'') (\<lambda>regrid_weights.
     bind (if unmasked_src
           then write_scrip src_grid src_grid_scrip (Some (zeros_like (mask_t src_grid)))
           else write_scrip src_grid src_grid_scrip None) (\<lambda>_.
     bind (if unmasked_dest
           then write_scrip dest_grid dest_grid_scrip (Some (zeros_like (mask_t dest_grid)))
           else write_scrip dest_grid dest_grid_scrip None) (\<lambda>_.
     run_regrid env src_grid_scrip dest_grid_scrip method regrid_weights ignore_unmapped)))))"

subsection \<open>\<^verbatim>\<open>find_grid_defs\<close> and \<^verbatim>\<open>main\<close>\<close>

text \<open>An entry of the dictionary of grid files: one path, or a pair of paths.\<close>

datatype gdef = OnePath string | TwoPaths string string

definition find_grid_defs :: "string \<Rightarrow> string \<Rightarrow> (string \<times> gdef) list" where
  "find_grid_defs input_dir jra55_input =
     [(''MOM1'', TwoPaths (path_join input_dir [''mom_1deg'', ''ocean_hgrid.nc''])
                          (path_join input_dir [''mom_1deg'', ''ocean_mask.nc''])),
      (''MOM025'', TwoPaths (path_join input_dir [''mom_025deg'', ''ocean_hgrid.nc''])
                            (path_join input_dir [''mom_025deg'', ''ocean_mask.nc''])),
      (''MOM01'', TwoPaths (path_join input_dir [''mom_01deg'', ''ocean_hgrid.nc''])
                           (path_join input_dir [''mom_01deg'', ''ocean_mask.nc''])),
      (''CORE2'', OnePath (path_join input_dir [''core_nyf'', ''t_10.0001.nc''])),
      (''JRA55'', OnePath (path_join jra55_input [''RYF.t_10.1990_1991.nc''])),
      (''JRA55_runoff'', OnePath (path_join jra55_input [''RYF.runoff_all.1990_1991.nc'']))]"

definition lookup :: "(string \<times> gdef) list \<Rightarrow> string \<Rightarrow> (gdef, 's) comp" where
  "lookup d k = (case map_of d k of None \<Rightarrow> raise (KeyError k) | Some v \<Rightarrow> ret v)"

text \<open>\<^verbatim>\<open>entry[i]\<close>: a component of a pair, a character of a string.\<close>

definition index :: "gdef \<Rightarrow> nat \<Rightarrow> (string, 's) comp" where
  "index v i =
     (case v of
        TwoPaths a b \<Rightarrow> if i = 0 then ret a else if i = 1 then ret b
                        else raise (IndexError ''tuple index out of range'')
      | OnePath s \<Rightarrow> if i < length s then ret [s ! i]
                     else raise (IndexError ''string index out of range''))"

definition paths_of :: "gdef \<Rightarrow> string list" where
  "paths_of v = (case v of OnePath s \<Rightarrow> [s] | TwoPaths a b \<Rightarrow> [a, b])"

text \<open>The parsed arguments; \<open>method_arg\<close> is \<^verbatim>\<open>args.method\<close>.\<close>

record args =
  input_dir :: string
  jra55_input :: string
  atm :: "string option"
  ocean :: "string option"
  method_arg :: "string option"

definition atm_options :: "string list" where
  "atm_options = [''CORE2'', ''JRA55'', ''JRA55_runoff'']"

definition ocean_options :: "string list" where
  "ocean_options = [''MOM1'', ''MOM01'', ''MOM025'']"

definition method_options :: "string list" where
  "method_options = [''patch'', ''conserve2nd'']"

text \<open>A \<^verbatim>\<open>for\<close> loop: an exception in the body ends it.\<close>

fun for_each :: "('a \<Rightarrow> (unit, 's) comp) \<Rightarrow> 'a list \<Rightarrow> (unit, 's) comp" where
  "for_each body [] = ret ()"
| "for_each body (x # xs) = bind (body x) (\<lambda>_. for_each body xs)"

definition output_name :: "string \<Rightarrow> string \<Rightarrow> string \<Rightarrow> string" where
  "output_name a oc m = a @ ''_'' @ oc @ ''_'' @ m @ ''.nc''"

text \<open>
  Lines 178 to 191, the body of the innermost loop. The name in the last branch of the
  dispatch, \<^verbatim>\<open>Jra552RiverGrid\<close>, is bound nowhere in the script (the import binds
  \<^verbatim>\<open>Jra55RiverGrid\<close>), so evaluating it raises \<^verbatim>\<open>NameError\<close>. The call of
  \<^verbatim>\<open>create_weights\<close> passes the method only: the three flags take their defaults.
\<close>

definition combination ::
  "'v env \<Rightarrow> (string \<times> gdef) list \<Rightarrow> string \<Rightarrow> string \<Rightarrow> string \<Rightarrow> (unit, 'v world) comp" where
  "combination env grid_file_dict a oc m =
     bind (if a = ''CORE2'' then
             bind (lookup grid_file_dict a) (\<lambda>v. construct env Core2Grid (paths_of v))
           else if a = ''JRA55'' then
             bind (lookup grid_file_dict a) (\<lambda>v. construct env Jra55Grid (paths_of v))
           else raise (NameError ''Jra552RiverGrid'')) (\<lambda>src_grid.
     bind (lookup grid_file_dict oc) (\<lambda>v0.
     bind (index v0 0) (\<lambda>hgrid.
     bind (lookup grid_file_dict oc) (\<lambda>v1.
     bind (index v1 1) (\<lambda>mask_file.
     bind (construct env MomGrid [hgrid, mask_file]) (\<lambda>dest_grid.
     bind (create_weights env src_grid dest_grid m False True False) (\<lambda>weights.
     bind (convert_to_scrip_output env weights) (\<lambda>weights'.
     shutil_move weights' (output_name a oc m)))))))))"

definition usage_exit :: "(int, 'v world) comp" where
  "usage_exit =
     bind (effect (eprint (Line ''Error: bad atm grid.''))) (\<lambda>_.
     bind (effect (print Usage)) (\<lambda>_.
     ret 1))"

text \<open>Lines 149 to 165: a filter that was given and is not one of the options.\<close>

definition bad_choice :: "string option \<Rightarrow> string list \<Rightarrow> bool" where
  "bad_choice given options = (case given of None \<Rightarrow> False | Some x \<Rightarrow> x \<notin> set options)"

definition choices :: "string option \<Rightarrow> string list \<Rightarrow> string list" where
  "choices given options = (case given of None \<Rightarrow> options | Some x \<Rightarrow> [x])"

definition main :: "'v env \<Rightarrow> args \<Rightarrow> (int, 'v world) comp" where
  "main env a =
     (if bad_choice (atm a) atm_options then usage_exit
      else
        let atms = choices (atm a) atm_options in
        if bad_choice (ocean a) ocean_options then usage_exit
        else
          let oceans = choices (ocean a) ocean_options;
              methods = choices (method_arg a) method_options;
              grid_file_dict = find_grid_defs (input_dir a) (jra55_input a)
          in bind (for_each (\<lambda>x.
                     for_each (\<lambda>y.
                       for_each (\<lambda>z. combination env grid_file_dict x y z) methods) oceans) atms)
                  (\<lambda>_. ret 0))"

text \<open>
  \<^verbatim>\<open>sys.exit(main())\<close>: the exit code of the process is the value of \<open>main\<close>; an
  uncaught exception prints a traceback and exits with 1.
\<close>

definition script :: "'v env \<Rightarrow> args \<Rightarrow> 'v world \<Rightarrow> int \<times> 'v world" where
  "script env a w =
     (case main env a w of
        (Inr code, w') \<Rightarrow> (code, w')
      | (Inl e, w') \<Rightarrow> (1, eprint (Traceback e) w'))"

subsection \<open>The names renamed by the converter\<close>

text \<open>
  The old-name, new-name pairs of the command of line 36, dimensions first. Lemma
  \<open>shlex_rename_cmd\<close> below shows that these are the pairs on the command line.
\<close>

definition dim_table :: "(string \<times> string) list" where
  "dim_table =
     [(''n_a'', ''src_grid_size''), (''n_b'', ''dst_grid_size''), (''n_s'', ''num_links''),
      (''nv_a'', ''src_grid_corners''), (''nv_b'', ''dst_grid_corners'')]"

definition var_table :: "(string \<times> string) list" where
  "var_table =
     [(''yc_a'', ''src_grid_center_lat''), (''yc_b'', ''dst_grid_center_lat''),
      (''xc_a'', ''src_grid_center_lon''), (''xc_b'', ''dst_grid_center_lon''),
      (''yv_a'', ''src_grid_corner_lat''), (''xv_a'', ''src_grid_corner_lon''),
      (''yv_b'', ''dst_grid_corner_lat''), (''xv_b'', ''dst_grid_corner_lon''),
      (''mask_a'', ''src_grid_imask''), (''mask_b'', ''dst_grid_imask''),
      (''area_a'', ''src_grid_area''), (''area_b'', ''dst_grid_area''),
      (''frac_a'', ''src_grid_frac''), (''frac_b'', ''dst_grid_frac''),
      (''col'', ''src_address''), (''row'', ''dst_address'')]"

definition rename_table :: "rename list" where
  "rename_table = map (\<lambda>(a, b). RenDim a b) dim_table @ map (\<lambda>(a, b). RenVar a b) var_table"

fun rename_flag :: "rename \<Rightarrow> string list" where
  "rename_flag (RenDim a b) = [''-d'', a @ '','' @ b]"
| "rename_flag (RenVar a b) = [''-v'', a @ '','' @ b]"

text \<open>
  A path that \<^verbatim>\<open>shlex.split\<close> leaves as one token and that the rename utility takes
  as a file name: not empty, no white space, no quote, no backslash, not an option.
\<close>

definition plain :: "string \<Rightarrow> bool" where
  "plain s = (s \<noteq> [] \<and> s \<noteq> ''-d'' \<and> s \<noteq> ''-v'' \<and>
     (\<forall>c\<in>set s. \<not> is_space c \<and> c \<noteq> squote \<and> c \<noteq> dquote \<and> c \<noteq> backslash))"

text \<open>What a list of pairs does to one name, when all pairs are applied.\<close>

definition subst :: "(string \<times> string) list \<Rightarrow> string \<Rightarrow> string" where
  "subst ps n = (case map_of ps n of None \<Rightarrow> n | Some m \<Rightarrow> m)"

fun dim_pairs :: "rename list \<Rightarrow> (string \<times> string) list" where
  "dim_pairs [] = []"
| "dim_pairs (RenDim a b # rs) = (a, b) # dim_pairs rs"
| "dim_pairs (RenVar a b # rs) = dim_pairs rs"

fun var_pairs :: "rename list \<Rightarrow> (string \<times> string) list" where
  "var_pairs [] = []"
| "var_pairs (RenDim a b # rs) = var_pairs rs"
| "var_pairs (RenVar a b # rs) = (a, b) # var_pairs rs"

definition dim_names :: "'v ncfile \<Rightarrow> string set" where
  "dim_names f = fst ` set (nc_dims f)"

definition var_names :: "'v ncfile \<Rightarrow> string set" where
  "var_names f = var_name ` set (nc_vars f)"

subsection \<open>Calls made with the default flags\<close>

text \<open>
  What the calls of the driver look like when \<open>create_weights\<close> runs with its defaults
  (\<^verbatim>\<open>unmasked_src=True\<close>, \<^verbatim>\<open>unmasked_dest=False\<close>, \<^verbatim>\<open>ignore_unmapped=False\<close>):
  an ocean grid, built by \<^verbatim>\<open>MomGrid\<close>, is written with its own mask and any other
  grid with zeros; the command line of the weight generator ends with \<^verbatim>\<open>-w\<close> and the
  output path, with no flag after it.
\<close>

definition default_call :: "call \<Rightarrow> bool" where
  "default_call c =
     (case c of
        WriteScrip p g m \<Rightarrow>
          (if g_class g = MomGrid then m = mask_t g else m = zeros_like (mask_t g))
      | Spawn cmd \<Rightarrow>
          (case cmd of
             [] \<Rightarrow> False
           | prog # argv \<Rightarrow>
               prog = ''ncrename'' \<or> (case rev cmd of p # x # _ \<Rightarrow> x = ''-w'' | _ \<Rightarrow> False)))"

text \<open>All the calls made so far have a property.\<close>

definition calls_ok :: "(call \<Rightarrow> bool) \<Rightarrow> 'v world \<Rightarrow> bool" where
  "calls_ok P w = list_all P (calls w)"

text \<open>
  A command line of the weight generator that carries the method \<open>m\<close>: its ninth and
  tenth words, where \<open>regrid_cmd\<close> puts them, are \<^verbatim>\<open>-m\<close> and \<open>m\<close>. The other calls,
  grid descriptions and the rename utility, take no method.
\<close>

definition method_call :: "string \<Rightarrow> call \<Rightarrow> bool" where
  "method_call m c =
     (case c of
        WriteScrip p g k \<Rightarrow> True
      | Spawn cmd \<Rightarrow>
          (case cmd of
             [] \<Rightarrow> False
           | prog # argv \<Rightarrow> prog = ''ncrename'' \<or> take 2 (drop 8 cmd) = [''-m'', m]))"

text \<open>
  A computation keeps an invariant of the world, whatever its outcome, and its normal
  results satisfy \<open>Q\<close>.
\<close>

definition keeps :: "('s \<Rightarrow> bool) \<Rightarrow> ('a, 's) comp \<Rightarrow> ('a \<Rightarrow> bool) \<Rightarrow> bool" where
  "keeps I m Q = (\<forall>s. I s \<longrightarrow> I (snd (m s)) \<and> (\<forall>x. fst (m s) = Inr x \<longrightarrow> Q x))"

subsection \<open>A small environment on which the script runs to the end\<close>

text \<open>
  A weight file as the generator writes it: two cells on each grid and three links. The
  environment below has four processors, a generator that always succeeds and writes this
  file, and a grid library that reads a two by two mask. \<open>failing_env\<close> differs in the
  generator only, which exits with 2 and leaves a log.
\<close>

definition demo_weights :: "int ncfile" where
  "demo_weights =
     \<lparr>nc_dims = [(''n_a'', 2), (''n_b'', 2), (''n_s'', 3), (''nv_a'', 4), (''nv_b'', 4),
                 (''num_wgts'', 1)],
      nc_vars = map (\<lambda>(n, ds, xs). \<lparr>var_name = n, var_dims = ds, var_data = map Some xs\<rparr>)
        [(''yc_a'', [0], [10, 20]), (''yc_b'', [1], [11, 21]),
         (''xc_a'', [0], [1, 2]), (''xc_b'', [1], [3, 4]),
         (''yv_a'', [0, 3], []), (''xv_a'', [0, 3], []),
         (''yv_b'', [1, 4], []), (''xv_b'', [1, 4], []),
         (''mask_a'', [0], [0, 0]), (''mask_b'', [1], [1, 0]),
         (''area_a'', [0], [5, 5]), (''area_b'', [1], [5, 5]),
         (''frac_a'', [0], [1, 1]), (''frac_b'', [1], [1, 0]),
         (''col'', [2], [1, 2, 2]), (''row'', [2], [1, 1, 2]),
         (''S'', [2], [7, 8, 9])]\<rparr>"

definition demo_env :: "int env" where
  "demo_env =
     \<lparr>tmpdir = ''/tmp'', rand_name = str_nat, cpu_count = 8, script_dir = ''/opt/tools'',
      read_mask = (\<lambda>cls files fls. Inr [[1, 0], [0, 1]]),
      weight_gen = (\<lambda>cmd fls. Some \<lparr>gen_ret = 0, gen_out = [],
                                      gen_weights = Some demo_weights, gen_log = Some ''done''\<rparr>),
      ncrename_installed = True, rename_diag = (\<lambda>_. []), raw_text = (\<lambda>_. [])\<rparr>"

definition failing_env :: "int env" where
  "failing_env =
     demo_env\<lparr>weight_gen := (\<lambda>cmd fls. Some \<lparr>gen_ret = 2, gen_out = ''no overlap'',
                                               gen_weights = None, gen_log = Some ''PET0 log''\<rparr>)\<rparr>"

definition demo_world :: "int world" where
  "demo_world = \<lparr>fs = Map.empty, rng = 0, stdout = [], stderr = [], calls = []\<rparr>"

text \<open>A world that holds one weight file, and nothing else.\<close>

definition conv_world :: "int world" where
  "conv_world = demo_world\<lparr>fs := [''/data/w.nc'' \<mapsto> Nc demo_weights]\<rparr>"

definition demo_args :: args where
  "demo_args = \<lparr>input_dir = ''/in'', jra55_input = ''/jra'', atm = Some ''CORE2'',
                 ocean = Some ''MOM1'', method_arg = Some ''patch''\<rparr>"

definition demo_src :: grid where
  "demo_src = \<lparr>g_class = Core2Grid, g_files = [''/in/core_nyf/t_10.0001.nc''],
                mask_t = [[1, 0], [0, 1]]\<rparr>"

definition demo_dest :: grid where
  "demo_dest = \<lparr>g_class = MomGrid,
                 g_files = [''/in/mom_1deg/ocean_hgrid.nc'', ''/in/mom_1deg/ocean_mask.nc''],
                 mask_t = [[1, 1], [0, 1]]\<rparr>"

section \<open>Properties\<close>

subsection \<open>The exception monad\<close>

lemma bind_apply:
  "bind m f s = (case m s of (Inl e, s') \<Rightarrow> (Inl e, s') | (Inr x, s') \<Rightarrow> f x s')"
  by (simp add: bind_def)

lemma ret_apply: "ret x s = (Inr x, s)"
  by (simp add: ret_def)

lemma raise_apply: "raise e s = (Inl e, s)"
  by (simp add: raise_def)

lemma effect_apply: "effect g s = (Inr (), g s)"
  by (simp add: effect_def)

lemma lift_apply: "lift r s = (r, s)"
  by (simp add: lift_def)

lemmas comp_simps = bind_apply ret_apply raise_apply effect_apply lift_apply

lemma bind_Inr:
  assumes "bind m f s = (Inr y, t)"
  obtains x s' where "m s = (Inr x, s')" and "f x s' = (Inr y, t)"
  using assms by (auto simp: bind_def split: prod.splits sum.splits)

subsection \<open>The argument checks of \<open>main\<close>\<close>

lemma usage_exit_apply:
  "usage_exit w =
     (Inr 1, w\<lparr>stdout := stdout w @ [Usage], stderr := stderr w @ [Line ''Error: bad atm grid.'']\<rparr>)"
  by (simp add: usage_exit_def comp_simps print_def eprint_def)

lemma main_bad_choice:
  assumes "bad_choice (atm a) atm_options \<or> bad_choice (ocean a) ocean_options"
  shows "main env a w = usage_exit w"
  using assms by (auto simp: main_def)

lemma runoff_combination:
  "combination env d ''JRA55_runoff'' oc m w = (Inl (NameError ''Jra552RiverGrid''), w)"
  by (simp add: combination_def comp_simps)

subsection \<open>Temporary files and the weight generator\<close>

lemma first_free_free:
  "first_free env suffix n i files = Some (p, k) \<Longrightarrow> files p = None"
  by (induction n arbitrary: i) (auto split: if_splits)

lemma mkstemp_cases:
  obtains (none) "mkstemp env suffix w =
      (Inl (FileExistsError ''No usable temporary file name found''), w\<lparr>rng := rng w + TMP_MAX\<rparr>)"
  | (some) p k where "mkstemp env suffix w = (Inr p, w\<lparr>fs := (fs w)(p \<mapsto> Text []), rng := k\<rparr>)"
      and "fs w p = None"
  by (cases "first_free env suffix TMP_MAX (rng w) (fs w)")
     (auto simp: mkstemp_def dest: first_free_free)

lemma write_scrip_apply:
  "write_scrip g p ov w =
     (Inr (), w\<lparr>fs := (fs w)(p \<mapsto> Scrip g (case ov of None \<Rightarrow> mask_t g | Some m \<Rightarrow> m)),
               calls := calls w @ [WriteScrip p g (case ov of None \<Rightarrow> mask_t g | Some m \<Rightarrow> m)]\<rparr>)"
  by (simp add: write_scrip_def effect_def Let_def)

lemma report_failure_apply:
  "report_failure env rc out w =
     (Inr None,
      w\<lparr>stderr := stderr w @ [Line (''Error: ESMF_RegridWeightGen failed ret '' @ str_int rc), Line out] @
          (case fs w log_name of
             None \<Rightarrow> []
           | Some f \<Rightarrow> [Line (''Contents of '' @ log_name @ '':''),
                        Line (case f of Text t \<Rightarrow> t | _ \<Rightarrow> raw_text env f)])\<rparr>)"
  by (cases "fs w log_name")
     (auto simp: report_failure_def comp_simps eprint_def os_path_exists_def read_text_def
           split: fdata.splits)

lemma calls_report_failure: "calls (snd (report_failure env rc out w)) = calls w"
  by (simp add: report_failure_apply)

lemma check_output_regrid:
  "check_output env (regrid_cmd env w s d m r ign) = run_weight_gen env (regrid_cmd env w s d m r ign)"
proof -
  obtain rest where "regrid_cmd env w s d m r ign = ''mpirun'' # rest"
    by (simp add: regrid_cmd_def Let_def)
  then show ?thesis by (simp add: check_output_def)
qed

lemma calls_run_weight_gen: "calls (snd (run_weight_gen env cmd w)) = calls w @ [Spawn cmd]"
  by (simp add: run_weight_gen_def Let_def split: option.splits)

lemma calls_run_regrid:
  "calls (snd (run_regrid env s d m r ign w)) = calls w @ [Spawn (regrid_cmd env w s d m r ign)]"
proof -
  let ?cmd = "regrid_cmd env w s d m r ign"
  obtain res w' where run: "run_weight_gen env ?cmd (print (ListRepr ?cmd) w) = (res, w')"
    by (cases "run_weight_gen env ?cmd (print (ListRepr ?cmd) w)")
  have c: "calls w' = calls w @ [Spawn ?cmd]"
    using calls_run_weight_gen [of env ?cmd "print (ListRepr ?cmd) w"] run
    by (simp add: print_def)
  show ?thesis
    using run c
    by (auto simp: run_regrid_def Let_def comp_simps check_output_regrid calls_report_failure
          os_remove_def split: sum.splits error.splits)
qed

text \<open>
  Unless \<^verbatim>\<open>mkstemp\<close> runs out of names, \<open>create_weights\<close> writes the two grid
  descriptions and then is the run of the generator on them.
\<close>

lemma create_weights_calls:
  assumes "fst (create_weights env src dest m ign us ud w) \<noteq>
             Inl (FileExistsError ''No usable temporary file name found'')"
  shows "\<exists>p1 p2 p3 w0. calls (snd (create_weights env src dest m ign us ud w)) =
           calls w @ [WriteScrip p1 src (if us then zeros_like (mask_t src) else mask_t src),
                      WriteScrip p2 dest (if ud then zeros_like (mask_t dest) else mask_t dest),
                      Spawn (regrid_cmd env w0 p1 p2 m p3 ign)]
         \<and> create_weights env src dest m ign us ud w = run_regrid env p1 p2 m p3 ign w0
         \<and> stderr w0 = stderr w
         \<and> fs w0 = (fs w)(p1 \<mapsto> Text [], p2 \<mapsto> Text [], p3 \<mapsto> Text [],
                p1 \<mapsto> Scrip src (if us then zeros_like (mask_t src) else mask_t src),
                p2 \<mapsto> Scrip dest (if ud then zeros_like (mask_t dest) else mask_t dest))"
proof (cases rule: mkstemp_cases [of env "''.nc''" w])
  case none
  then show ?thesis using assms by (simp add: create_weights_def comp_simps)
next
  case (some p1 k1)
  let ?w1 = "w\<lparr>fs := (fs w)(p1 \<mapsto> Text []), rng := k1\<rparr>"
  show ?thesis
  proof (cases rule: mkstemp_cases [of env "''.nc''" ?w1])
    case none
    then show ?thesis using assms some by (simp add: create_weights_def comp_simps)
  next
    case (some p2 k2)
    note s2 = some
    let ?w2 = "?w1\<lparr>fs := (fs ?w1)(p2 \<mapsto> Text []), rng := k2\<rparr>"
    show ?thesis
    proof (cases rule: mkstemp_cases [of env "''.nc''" ?w2])
      case none
      then show ?thesis using assms \<open>mkstemp env ''.nc'' w = _\<close> s2
        by (simp add: create_weights_def comp_simps)
    next
      case (some p3 k3)
      then show ?thesis using \<open>mkstemp env ''.nc'' w = _\<close> s2
        by (auto simp: create_weights_def comp_simps write_scrip_apply calls_run_regrid
              intro!: exI)
    qed
  qed
qed

lemma run_regrid_failure:
  assumes "weight_gen env (regrid_cmd env w s d m p ign) (fs w) = Some r" and "gen_ret r \<noteq> 0"
  shows "fst (run_regrid env s d m p ign w) = Inr None
       \<and> stderr (snd (run_regrid env s d m p ign w)) =
           stderr w @
           [Line (''Error: ESMF_RegridWeightGen failed ret '' @ str_int (gen_ret r)), Line (gen_out r)] @
           (case fs (snd (run_regrid env s d m p ign w)) ''PET0.RegridWeightGen.Log'' of
              None \<Rightarrow> []
            | Some f \<Rightarrow> [Line ''Contents of PET0.RegridWeightGen.Log:'',
                         Line (case f of Text t \<Rightarrow> t | _ \<Rightarrow> raw_text env f)])"
  using assms
  by (simp add: run_regrid_def Let_def comp_simps check_output_regrid run_weight_gen_def print_def
        report_failure_apply log_name_def split: option.splits)

subsection \<open>The command line of the rename utility\<close>

lemma emit_Inr: "emit t (Inr ts) = Inr (t # ts)"
  by (simp add: emit_def)

lemma emit_Inl: "emit t (Inl e) = Inl e"
  by (simp add: emit_def)

lemma shlex_rename_cmd:
  "shlex_split (rename_cmd w n) =
     (case shlex Between [] (w @ '' '' @ n) of
        Inl e \<Rightarrow> Inl e
      | Inr ps \<Rightarrow> Inr (''ncrename'' # concat (map rename_flag rename_table) @ ps))"
  by (cases "shlex Between [] (w @ '' '' @ n)")
     (simp_all add: shlex_split_def rename_cmd_def is_space_def squote_def dquote_def backslash_def
        emit_Inr emit_Inl rename_table_def dim_table_def var_table_def)

lemma shlex_word:
  "\<forall>c\<in>set s. \<not> is_space c \<and> c \<noteq> squote \<and> c \<noteq> dquote \<and> c \<noteq> backslash \<Longrightarrow>
   shlex InWord acc (s @ rest) = shlex InWord (acc @ s) rest"
  by (induction s arbitrary: acc) simp_all

lemma shlex_plain:
  assumes "plain s"
  shows "shlex Between [] (s @ rest) = shlex InWord s rest"
proof -
  obtain c cs where s: "s = c # cs" using assms by (cases s) (auto simp: plain_def)
  have "shlex Between [] (s @ rest) = shlex InWord [c] (cs @ rest)"
    using assms s by (simp add: plain_def)
  also have "\<dots> = shlex InWord ([c] @ cs) rest"
    using assms s by (intro shlex_word) (simp add: plain_def)
  finally show ?thesis using s by simp
qed

lemma shlex_two_plain:
  assumes "plain w" and "plain n"
  shows "shlex Between [] (w @ '' '' @ n) = Inr [w, n]"
  using shlex_plain [OF assms(1), of "'' '' @ n"] shlex_plain [OF assms(2), of "[]"]
  by (simp add: is_space_def emit_Inr)

lemma split_comma_literal: "CHR '','' \<notin> set a \<Longrightarrow> split_comma (a @ '','' @ b) = Some (a, b)"
  by (simp add: split_comma_def takeWhile_append1 dropWhile_append1 takeWhile_tail dropWhile_append)

lemma ncrename_args_table:
  assumes "plain w" and "plain n"
  shows "ncrename_args (concat (map rename_flag rename_table) @ [w, n]) = Some (rename_table, [w, n])"
  using assms
  by (simp add: rename_table_def dim_table_def var_table_def plain_def split_comma_def)

subsection \<open>Renaming, pair after pair\<close>

lemma rename_dim_Some:
  assumes "rename_dim a b f = Some f'"
  shows "nc_dims f' = map (\<lambda>(n, k). (if n = a then b else n, k)) (nc_dims f)"
    and "nc_vars f' = nc_vars f" and "a \<in> dim_names f" and "b \<notin> dim_names f"
  using assms by (auto simp: rename_dim_def dim_names_def split: if_splits)

lemma rename_var_Some:
  assumes "rename_var a b f = Some f'"
  shows "nc_vars f' = map (\<lambda>v. if var_name v = a then v\<lparr>var_name := b\<rparr> else v) (nc_vars f)"
    and "nc_dims f' = nc_dims f" and "a \<in> var_names f" and "b \<notin> var_names f"
  using assms by (auto simp: rename_var_def var_names_def split: if_splits)

lemma dim_names_renamed:
  assumes "nc_dims f' = map (\<lambda>(n, k). (if n = a then b else n, k)) (nc_dims f)"
  shows "dim_names f' = (\<lambda>n. if n = a then b else n) ` dim_names f"
proof -
  have "dim_names f' = (\<lambda>x. fst (case x of (n, k) \<Rightarrow> (if n = a then b else n, k))) ` set (nc_dims f)"
    unfolding dim_names_def assms by (simp only: set_map image_image)
  also have "\<dots> = (\<lambda>x. if fst x = a then b else fst x) ` set (nc_dims f)"
    by (rule image_cong) (simp_all add: case_prod_unfold)
  also have "\<dots> = (\<lambda>n. if n = a then b else n) ` dim_names f"
    unfolding dim_names_def by (simp only: image_image)
  finally show ?thesis .
qed

lemma var_names_renamed:
  assumes "nc_vars f' = map (\<lambda>v. if var_name v = a then v\<lparr>var_name := b\<rparr> else v) (nc_vars f)"
  shows "var_names f' = (\<lambda>n. if n = a then b else n) ` var_names f"
proof -
  have "var_names f' = (\<lambda>v. var_name (if var_name v = a then v\<lparr>var_name := b\<rparr> else v)) ` set (nc_vars f)"
    unfolding var_names_def assms by (simp only: set_map image_image)
  also have "\<dots> = (\<lambda>v. if var_name v = a then b else var_name v) ` set (nc_vars f)"
    by (rule image_cong) simp_all
  also have "\<dots> = (\<lambda>n. if n = a then b else n) ` var_names f"
    unfolding var_names_def by (simp only: image_image)
  finally show ?thesis .
qed

lemma subst_step:
  assumes "b \<notin> fst ` set ps"
  shows "(\<lambda>(n, k). (subst ps n, k)) \<circ> (\<lambda>(n, k :: nat). (if n = a then b else n, k)) =
         (\<lambda>(n, k). (subst ((a, b) # ps) n, k))"
proof (rule ext)
  fix x :: "string \<times> nat"
  obtain n k where x: "x = (n, k)" by (cases x)
  have "map_of ps b = None" using assms by (simp add: map_of_eq_None_iff)
  then show "((\<lambda>(n, k). (subst ps n, k)) \<circ> (\<lambda>(n, k). (if n = a then b else n, k))) x =
         (\<lambda>(n, k). (subst ((a, b) # ps) n, k)) x"
    by (simp add: x subst_def)
qed

lemma apply_renames_dims:
  assumes "apply_renames rs f = Some f'"
    and "fst ` set (dim_pairs rs) \<inter> snd ` set (dim_pairs rs) = {}"
  shows "nc_dims f' = map (\<lambda>(n, k). (subst (dim_pairs rs) n, k)) (nc_dims f)
       \<and> fst ` set (dim_pairs rs) \<subseteq> dim_names f
       \<and> snd ` set (dim_pairs rs) \<inter> dim_names f = {}"
  using assms
proof (induction rs f rule: apply_renames.induct)
  case (1 f)
  then show ?case by (simp add: subst_def)
next
  case (2 a b rs f)
  from 2(2) obtain f1 where f1: "rename_dim a b f = Some f1" and rest: "apply_renames rs f1 = Some f'"
    by (cases "rename_dim a b f") simp_all
  note r = rename_dim_Some [OF f1]
  let ?ps = "dim_pairs rs"
  from 2(3) have d0: "(insert a (fst ` set ?ps)) \<inter> (insert b (snd ` set ?ps)) = {}"
    by simp
  from d0 have disj: "fst ` set ?ps \<inter> snd ` set ?ps = {}" by blast
  from d0 have bfresh: "b \<notin> fst ` set ?ps" by blast
  from d0 have anew: "a \<notin> snd ` set ?ps" by blast
  note ih = 2(1) [OF f1 rest disj]
  have names1: "dim_names f1 = (\<lambda>n. if n = a then b else n) ` dim_names f"
    using r(1) by (rule dim_names_renamed)
  have "nc_dims f' = map ((\<lambda>(n, k). (subst ?ps n, k)) \<circ> (\<lambda>(n, k). (if n = a then b else n, k))) (nc_dims f)"
    using ih r(1) by (simp only: map_map)
  then have d: "nc_dims f' = map (\<lambda>(n, k). (subst ((a, b) # ?ps) n, k)) (nc_dims f)"
    by (simp only: subst_step [OF bfresh])
  have s1: "fst ` set ?ps \<subseteq> dim_names f"
  proof
    fix x assume x: "x \<in> fst ` set ?ps"
    then have "x \<in> dim_names f1" using ih by blast
    then obtain n where n: "n \<in> dim_names f" "x = (if n = a then b else n)"
      unfolding names1 by blast
    show "x \<in> dim_names f"
    proof (cases "n = a")
      case True
      with n have "x = b" by simp
      with x bfresh show ?thesis by simp
    next
      case False
      with n show ?thesis by simp
    qed
  qed
  have s2: "snd ` set ?ps \<inter> dim_names f = {}"
  proof (rule ccontr)
    assume "snd ` set ?ps \<inter> dim_names f \<noteq> {}"
    then obtain x where x: "x \<in> snd ` set ?ps" "x \<in> dim_names f" by blast
    with anew have "x \<noteq> a" by blast
    with x(2) have "x \<in> dim_names f1" unfolding names1 by (intro image_eqI [where x = x]) simp_all
    with x(1) ih show False by blast
  qed
  show ?case using d s1 s2 r(3,4) by simp
next
  case (3 a b rs f)
  from 3(2) obtain f1 where f1: "rename_var a b f = Some f1" and rest: "apply_renames rs f1 = Some f'"
    by (cases "rename_var a b f") simp_all
  note r = rename_var_Some [OF f1]
  from 3(3) have disj: "fst ` set (dim_pairs rs) \<inter> snd ` set (dim_pairs rs) = {}" by simp
  from 3(1) [OF f1 rest disj] r(2) show ?case by (simp add: dim_names_def)
qed

lemma subst_step_var:
  assumes "b \<notin> fst ` set ps"
  shows "(\<lambda>v. v\<lparr>var_name := subst ps (var_name v)\<rparr>) \<circ>
           (\<lambda>v :: 'v ncvar. if var_name v = a then v\<lparr>var_name := b\<rparr> else v) =
         (\<lambda>v. v\<lparr>var_name := subst ((a, b) # ps) (var_name v)\<rparr>)"
proof (rule ext)
  fix v :: "'v ncvar"
  have "map_of ps b = None" using assms by (simp add: map_of_eq_None_iff)
  then show "((\<lambda>v. v\<lparr>var_name := subst ps (var_name v)\<rparr>) \<circ>
           (\<lambda>v. if var_name v = a then v\<lparr>var_name := b\<rparr> else v)) v =
         (\<lambda>v. v\<lparr>var_name := subst ((a, b) # ps) (var_name v)\<rparr>) v"
    by (simp add: subst_def)
qed

lemma apply_renames_vars:
  assumes "apply_renames rs f = Some f'"
    and "fst ` set (var_pairs rs) \<inter> snd ` set (var_pairs rs) = {}"
  shows "nc_vars f' = map (\<lambda>v. v\<lparr>var_name := subst (var_pairs rs) (var_name v)\<rparr>) (nc_vars f)
       \<and> fst ` set (var_pairs rs) \<subseteq> var_names f
       \<and> snd ` set (var_pairs rs) \<inter> var_names f = {}"
  using assms
proof (induction rs f rule: apply_renames.induct)
  case (1 f)
  then show ?case by (simp add: subst_def)
next
  case (3 a b rs f)
  from 3(2) obtain f1 where f1: "rename_var a b f = Some f1" and rest: "apply_renames rs f1 = Some f'"
    by (cases "rename_var a b f") simp_all
  note r = rename_var_Some [OF f1]
  let ?ps = "var_pairs rs"
  from 3(3) have d0: "(insert a (fst ` set ?ps)) \<inter> (insert b (snd ` set ?ps)) = {}"
    by simp
  from d0 have disj: "fst ` set ?ps \<inter> snd ` set ?ps = {}" by blast
  from d0 have bfresh: "b \<notin> fst ` set ?ps" by blast
  from d0 have anew: "a \<notin> snd ` set ?ps" by blast
  note ih = 3(1) [OF f1 rest disj]
  have names1: "var_names f1 = (\<lambda>n. if n = a then b else n) ` var_names f"
    using r(1) by (rule var_names_renamed)
  have "nc_vars f' = map ((\<lambda>v. v\<lparr>var_name := subst ?ps (var_name v)\<rparr>) \<circ>
           (\<lambda>v. if var_name v = a then v\<lparr>var_name := b\<rparr> else v)) (nc_vars f)"
    using ih r(1) by (simp only: map_map)
  then have d: "nc_vars f' = map (\<lambda>v. v\<lparr>var_name := subst ((a, b) # ?ps) (var_name v)\<rparr>) (nc_vars f)"
    by (simp only: subst_step_var [OF bfresh])
  have s1: "fst ` set ?ps \<subseteq> var_names f"
  proof
    fix x assume x: "x \<in> fst ` set ?ps"
    then have "x \<in> var_names f1" using ih by blast
    then obtain n where n: "n \<in> var_names f" "x = (if n = a then b else n)"
      unfolding names1 by blast
    show "x \<in> var_names f"
    proof (cases "n = a")
      case True
      with n have "x = b" by simp
      with x bfresh show ?thesis by simp
    next
      case False
      with n show ?thesis by simp
    qed
  qed
  have s2: "snd ` set ?ps \<inter> var_names f = {}"
  proof (rule ccontr)
    assume "snd ` set ?ps \<inter> var_names f \<noteq> {}"
    then obtain x where x: "x \<in> snd ` set ?ps" "x \<in> var_names f" by blast
    with anew have "x \<noteq> a" by blast
    with x(2) have "x \<in> var_names f1" unfolding names1 by (intro image_eqI [where x = x]) simp_all
    with x(1) ih show False by blast
  qed
  show ?case using d s1 s2 r(3,4) by simp
next
  case (2 a b rs f)
  from 2(2) obtain f1 where f1: "rename_dim a b f = Some f1" and rest: "apply_renames rs f1 = Some f'"
    by (cases "rename_dim a b f") simp_all
  note r = rename_dim_Some [OF f1]
  from 2(3) have disj: "fst ` set (var_pairs rs) \<inter> snd ` set (var_pairs rs) = {}" by simp
  from 2(1) [OF f1 rest disj] r(2) show ?case by (simp add: var_names_def)
qed

subsection \<open>The NetCDF step and the converter\<close>

lemma open_dataset_Inr:
  assumes "open_dataset q w = (Inr f, w')"
  obtains p where "q = Some p" and "fs w p = Some (Nc f)" and "w' = w"
  using assms by (auto simp: open_dataset_def split: option.splits fdata.splits)

lemma lift_Inr: "lift r w = (Inr x, w') \<Longrightarrow> r = Inr x \<and> w' = w"
  by (simp add: lift_def)

lemma fix_remap_matrix_Inr:
  assumes "fix_remap_matrix q n w = (Inr u, w')"
  obtains wp f_old f_new f1 idx S f2 where
    "q = Some wp" and "fs w wp = Some (Nc f_old)" and "fs w n = Some (Nc f_new)"
    and "createVariable ''remap_matrix'' [''num_links'', ''num_wgts''] f_new = Inr (f1, idx)"
    and "getvar ''S'' f_old = Inr S"
    and "assign_column0 idx (var_data S) f1 = Inr f2"
    and "w' = w\<lparr>fs := (fs w)(n \<mapsto> Nc f2)\<rparr>"
proof -
  from assms obtain f_old w1 where o1: "open_dataset q w = (Inr f_old, w1)"
    and r1: "bind (open_dataset (Some n)) (\<lambda>f_new.
     bind (lift (createVariable ''remap_matrix'' [''num_links'', ''num_wgts''] f_new)) (\<lambda>(f1, remap_matrix).
     bind (effect (store n f1)) (\<lambda>_.
     bind (lift (getvar ''S'' f_old)) (\<lambda>S.
     bind (lift (assign_column0 remap_matrix (var_data S) f1)) (\<lambda>f2.
     effect (store n f2)))))) w1 = (Inr u, w')"
    unfolding fix_remap_matrix_def by (erule bind_Inr)
  from o1 obtain wp where q: "q = Some wp" and old: "fs w wp = Some (Nc f_old)" and w1: "w1 = w"
    by (rule open_dataset_Inr)
  from r1 obtain f_new w2 where o2: "open_dataset (Some n) w1 = (Inr f_new, w2)"
    and r2: "bind (lift (createVariable ''remap_matrix'' [''num_links'', ''num_wgts''] f_new)) (\<lambda>(f1, remap_matrix).
     bind (effect (store n f1)) (\<lambda>_.
     bind (lift (getvar ''S'' f_old)) (\<lambda>S.
     bind (lift (assign_column0 remap_matrix (var_data S) f1)) (\<lambda>f2.
     effect (store n f2))))) w2 = (Inr u, w')"
    by (erule bind_Inr)
  from o2 have new: "fs w n = Some (Nc f_new)" and w2: "w2 = w"
    using w1 by (auto elim: open_dataset_Inr)
  from r2 obtain c w3 where cv: "lift (createVariable ''remap_matrix'' [''num_links'', ''num_wgts''] f_new) w2 = (Inr c, w3)"
    and r3: "(case c of (f1, remap_matrix) \<Rightarrow>
     bind (effect (store n f1)) (\<lambda>_.
     bind (lift (getvar ''S'' f_old)) (\<lambda>S.
     bind (lift (assign_column0 remap_matrix (var_data S) f1)) (\<lambda>f2.
     effect (store n f2))))) w3 = (Inr u, w')"
    by (erule bind_Inr)
  obtain f1 idx where c: "c = (f1, idx)" by (cases c)
  from cv c w2 have cv': "createVariable ''remap_matrix'' [''num_links'', ''num_wgts''] f_new = Inr (f1, idx)"
    and w3: "w3 = w" by (auto dest: lift_Inr)
  from r3 c have r4: "bind (lift (getvar ''S'' f_old)) (\<lambda>S.
     bind (lift (assign_column0 idx (var_data S) f1)) (\<lambda>f2.
     effect (store n f2))) (store n f1 w3) = (Inr u, w')"
    by (simp add: bind_apply effect_apply)
  from r4 obtain S w4 where gv: "lift (getvar ''S'' f_old) (store n f1 w3) = (Inr S, w4)"
    and r5: "bind (lift (assign_column0 idx (var_data S) f1)) (\<lambda>f2. effect (store n f2)) w4 = (Inr u, w')"
    by (erule bind_Inr)
  from gv have gv': "getvar ''S'' f_old = Inr S" and w4: "w4 = store n f1 w3"
    by (auto dest: lift_Inr)
  from r5 obtain f2 w5 where as: "lift (assign_column0 idx (var_data S) f1) w4 = (Inr f2, w5)"
    and r6: "effect (store n f2) w5 = (Inr u, w')"
    by (erule bind_Inr)
  from as have as': "assign_column0 idx (var_data S) f1 = Inr f2" and w5: "w5 = w4"
    by (auto dest: lift_Inr)
  from r6 w5 w4 w3 have "w' = w\<lparr>fs := (fs w)(n \<mapsto> Nc f2)\<rparr>"
    by (simp add: effect_apply store_def)
  with q old new cv' gv' as' show ?thesis by (rule that)
qed

lemma dim_pos_Some: "dim_pos n ds = Some i \<Longrightarrow> i < length ds \<and> fst (ds ! i) = n"
  by (induction ds arbitrary: i) (auto split: if_splits)

lemma createVariable_Inr:
  assumes "createVariable name [d1, d2] f = Inr (f1, idx)"
  obtains i j where "dim_pos d1 (nc_dims f) = Some i" and "dim_pos d2 (nc_dims f) = Some j"
    and "find_var name f = None" and "idx = length (nc_vars f)" and "nc_dims f1 = nc_dims f"
    and "nc_vars f1 = nc_vars f @ [\<lparr>var_name = name, var_dims = [i, j],
           var_data = replicate (dim_size f i * dim_size f j) None\<rparr>]"
  using assms
  by (auto simp: createVariable_def split: option.splits sum.splits if_splits)

lemma broadcast_Inr:
  "broadcast n vals = Inr vals' \<Longrightarrow> length vals' = n \<and> (length vals = n \<longrightarrow> vals' = vals)"
  by (auto simp: broadcast_def split: if_splits)

lemma column0_set_column0:
  assumes "length data = nr * nc" and "length vals = nr" and "0 < nc"
  shows "column 0 nc (set_column0 nc vals data) = vals"
proof -
  have len: "length (set_column0 nc vals data) = nr * nc"
    using assms by (simp add: set_column0_def)
  have "column 0 nc (set_column0 nc vals data) = map (\<lambda>i. vals ! i) [0..<nr]"
    unfolding column_def len using assms
    by (auto simp: set_column0_def intro!: nth_equalityI)
  also have "\<dots> = vals" using assms(2) map_nth [of vals] by simp
  finally show ?thesis .
qed

lemma first_free_name:
  "first_free env suffix n i files = Some (p, k) \<Longrightarrow> \<exists>j. p = tmp_path env suffix j"
  by (induction n arbitrary: i) (auto split: if_splits)

lemma mkstemp_Inr:
  assumes "mkstemp env suffix w = (Inr p, w')"
  shows "fs w p = None \<and> (\<exists>k. w' = w\<lparr>fs := (fs w)(p \<mapsto> Text []), rng := k\<rparr>)
       \<and> (\<exists>j. p = tmp_path env suffix j)"
proof (cases "first_free env suffix TMP_MAX (rng w) (fs w)")
  case None
  then show ?thesis using assms by (simp add: mkstemp_def)
next
  case (Some a)
  obtain q k where a: "a = (q, k)" by (cases a)
  with Some assms have "q = p" and "w' = w\<lparr>fs := (fs w)(p \<mapsto> Text []), rng := k\<rparr>"
    by (auto simp: mkstemp_def)
  with Some a first_free_free [of env suffix TMP_MAX "rng w" "fs w" p k]
    first_free_name [of env suffix TMP_MAX "rng w" "fs w" p k]
  show ?thesis by blast
qed

lemma os_remove_Inr:
  assumes "os_remove p w = (Inr u, w')"
  shows "fs w p \<noteq> None \<and> w' = w\<lparr>fs := (fs w)(p := None)\<rparr>"
  using assms by (auto simp: os_remove_def split: if_splits)

lemma run_ncrename_cases:
  "run_ncrename env argv w =
        (Inl (OSError ''ncrename''), w\<lparr>calls := calls w @ [Spawn (''ncrename'' # argv)]\<rparr>)
   \<or> run_ncrename env argv w =
        (Inl (CalledProcessError 1 (rename_diag env argv)),
         w\<lparr>calls := calls w @ [Spawn (''ncrename'' # argv)]\<rparr>)
   \<or> (\<exists>f' out. ncrename_result argv (fs w) = Some f' \<and> ncrename_out argv = Some out
      \<and> run_ncrename env argv w =
        (Inr [], w\<lparr>calls := calls w @ [Spawn (''ncrename'' # argv)], fs := (fs w)(out \<mapsto> Nc f')\<rparr>))"
  by (cases "ncrename_result argv (fs w)"; cases "ncrename_out argv")
     (simp_all add: run_ncrename_def Let_def)

lemma try_rename_Inr:
  assumes "try_rename env (rename_cmd ws n) w = (Inr u, w')"
  shows "stdout w' = stdout w \<and>
    ((\<exists>argv out f'. shlex_split (rename_cmd ws n) = Inr (''ncrename'' # argv)
         \<and> ncrename_result argv (fs w) = Some f' \<and> ncrename_out argv = Some out
         \<and> fs w' = (fs w)(out \<mapsto> Nc f') \<and> stderr w' = stderr w)
     \<or> fs w' = fs w)"
proof (cases "shlex Between [] (ws @ '' '' @ n)")
  case (Inl e)
  then show ?thesis using assms
    by (auto simp: try_rename_def comp_simps shlex_rename_cmd eprint_def split: error.splits)
next
  case (Inr ps)
  let ?argv = "concat (map rename_flag rename_table) @ ps"
  have sp: "shlex_split (rename_cmd ws n) = Inr (''ncrename'' # ?argv)"
    using Inr by (simp add: shlex_rename_cmd)
  have co: "check_output env (''ncrename'' # ?argv) = run_ncrename env ?argv"
    by (simp add: check_output_def)
  from run_ncrename_cases [of env ?argv w] show ?thesis
  proof (elim disjE exE conjE)
    assume "run_ncrename env ?argv w =
        (Inl (OSError ''ncrename''), w\<lparr>calls := calls w @ [Spawn (''ncrename'' # ?argv)]\<rparr>)"
    then show ?thesis using assms sp co by (simp add: try_rename_def comp_simps)
  next
    assume "run_ncrename env ?argv w =
        (Inl (CalledProcessError 1 (rename_diag env ?argv)),
         w\<lparr>calls := calls w @ [Spawn (''ncrename'' # ?argv)]\<rparr>)"
    then show ?thesis using assms sp co by (auto simp: try_rename_def comp_simps eprint_def)
  next
    fix f' out
    assume "ncrename_result ?argv (fs w) = Some f'" "ncrename_out ?argv = Some out"
      "run_ncrename env ?argv w =
        (Inr [], w\<lparr>calls := calls w @ [Spawn (''ncrename'' # ?argv)], fs := (fs w)(out \<mapsto> Nc f')\<rparr>)"
    then show ?thesis using assms sp co by (auto simp: try_rename_def comp_simps)
  qed
qed

lemma convert_Inr:
  assumes "convert_to_scrip_output env q w = (Inr p, w')"
  shows "\<exists>wp argv f_ren f_old f1 idx S f2.
     q = Some wp \<and> fs w p = None \<and> (\<exists>j. p = tmp_path env ''.nc'' j)
     \<and> shlex_split (rename_cmd wp p) = Inr (''ncrename'' # argv)
     \<and> ncrename_result argv (fs w) = Some f_ren \<and> ncrename_out argv = Some p
     \<and> ((fs w)(p \<mapsto> Nc f_ren)) wp = Some (Nc f_old)
     \<and> createVariable ''remap_matrix'' [''num_links'', ''num_wgts''] f_ren = Inr (f1, idx)
     \<and> getvar ''S'' f_old = Inr S \<and> assign_column0 idx (var_data S) f1 = Inr f2
     \<and> fs w' = ((fs w)(p \<mapsto> Nc f2))(wp := None)
     \<and> stdout w' = stdout w \<and> stderr w' = stderr w"
proof -
  from assms obtain n w1 where m: "mkstemp env ''.nc'' w = (Inr n, w1)"
    and r1: "bind (os_remove n) (\<lambda>_.
     bind (try_rename env (rename_cmd (format_opt q) n)) (\<lambda>_.
     bind (fix_remap_matrix q n) (\<lambda>_.
     bind (case q of
             None \<Rightarrow> raise (TypeError ''remove: path should be string, not NoneType'')
           | Some p \<Rightarrow> os_remove p) (\<lambda>_.
     ret n)))) w1 = (Inr p, w')"
    unfolding convert_to_scrip_output_def by (erule bind_Inr)
  from mkstemp_Inr [OF m] obtain k j where fresh: "fs w n = None"
    and w1: "w1 = w\<lparr>fs := (fs w)(n \<mapsto> Text []), rng := k\<rparr>" and nj: "n = tmp_path env ''.nc'' j"
    by blast
  from r1 obtain u2 w2 where rm: "os_remove n w1 = (Inr u2, w2)"
    and r2: "bind (try_rename env (rename_cmd (format_opt q) n)) (\<lambda>_.
     bind (fix_remap_matrix q n) (\<lambda>_.
     bind (case q of
             None \<Rightarrow> raise (TypeError ''remove: path should be string, not NoneType'')
           | Some p \<Rightarrow> os_remove p) (\<lambda>_.
     ret n))) w2 = (Inr p, w')"
    by (erule bind_Inr)
  from os_remove_Inr [OF rm] w1 fresh have fs2: "fs w2 = fs w"
    and out2: "stdout w2 = stdout w" "stderr w2 = stderr w"
    by (auto simp: fun_upd_idem)
  from r2 obtain u3 w3 where tr: "try_rename env (rename_cmd (format_opt q) n) w2 = (Inr u3, w3)"
    and r3: "bind (fix_remap_matrix q n) (\<lambda>_.
     bind (case q of
             None \<Rightarrow> raise (TypeError ''remove: path should be string, not NoneType'')
           | Some p \<Rightarrow> os_remove p) (\<lambda>_.
     ret n)) w3 = (Inr p, w')"
    by (erule bind_Inr)
  from r3 obtain u4 w4 where fx: "fix_remap_matrix q n w3 = (Inr u4, w4)"
    and r4: "bind (case q of
             None \<Rightarrow> raise (TypeError ''remove: path should be string, not NoneType'')
           | Some p \<Rightarrow> os_remove p) (\<lambda>_. ret n) w4 = (Inr p, w')"
    by (erule bind_Inr)
  from fx obtain wp f_old f_new f1 idx S f2 where
    q: "q = Some wp" and old: "fs w3 wp = Some (Nc f_old)" and new: "fs w3 n = Some (Nc f_new)"
    and cv: "createVariable ''remap_matrix'' [''num_links'', ''num_wgts''] f_new = Inr (f1, idx)"
    and gv: "getvar ''S'' f_old = Inr S"
    and av: "assign_column0 idx (var_data S) f1 = Inr f2"
    and w4: "w4 = w3\<lparr>fs := (fs w3)(n \<mapsto> Nc f2)\<rparr>"
    by (rule fix_remap_matrix_Inr)
  from r4 q obtain u5 w5 where rm2: "os_remove wp w4 = (Inr u5, w5)" and r5: "ret n w5 = (Inr p, w')"
    by (auto elim: bind_Inr)
  from r5 have pn: "p = n" and w': "w' = w5" by (simp_all add: ret_apply)
  from os_remove_Inr [OF rm2] have w5: "w5 = w4\<lparr>fs := (fs w4)(wp := None)\<rparr>" by simp
  from try_rename_Inr [OF tr] fs2 out2 have so: "stdout w3 = stdout w" by simp
  from try_rename_Inr [OF tr] fs2 new fresh
  obtain argv out f' where sp: "shlex_split (rename_cmd (format_opt q) n) = Inr (''ncrename'' # argv)"
    and res: "ncrename_result argv (fs w) = Some f'" and o: "ncrename_out argv = Some out"
    and fs3: "fs w3 = (fs w)(out \<mapsto> Nc f')" and se: "stderr w3 = stderr w2"
    by auto
  from fs3 new fresh have outn: "out = n" and f'n: "f' = f_new"
    by (auto simp: fun_upd_def split: if_splits)
  show ?thesis
    apply (rule exI [of _ wp], rule exI [of _ argv], rule exI [of _ f_new])
    apply (rule exI [of _ f_old], rule exI [of _ f1], rule exI [of _ idx])
    apply (rule exI [of _ S], rule exI [of _ f2])
    using q fresh nj sp res o fs3 old cv gv av w4 w5 w' pn outn f'n so se out2
    apply (simp add: format_opt_def)
    apply blast
    done
qed

lemma assign_column0_Inr:
  assumes "assign_column0 idx vals f1 = Inr f2"
  shows "\<exists>vals'. nc_dims f2 = nc_dims f1
     \<and> broadcast (dim_size f1 (var_dims (nc_vars f1 ! idx) ! 0)) vals = Inr vals'
     \<and> dim_size f1 (var_dims (nc_vars f1 ! idx) ! 1) \<noteq> 0
     \<and> nc_vars f2 = (nc_vars f1)[idx := (nc_vars f1 ! idx)\<lparr>var_data :=
          set_column0 (dim_size f1 (var_dims (nc_vars f1 ! idx) ! 1)) vals'
            (var_data (nc_vars f1 ! idx))\<rparr>]"
  using assms by (auto simp: assign_column0_def Let_def split: if_splits sum.splits)

lemma ncrename_plain:
  assumes "plain a" and "plain b"
  shows "ncrename_result (concat (map rename_flag rename_table) @ [a, b]) files =
           (case files a of Some (Nc f) \<Rightarrow> apply_renames rename_table f | _ \<Rightarrow> None)"
  by (simp add: ncrename_result_def ncrename_args_table [OF assms])

lemma pairs_rename_table: "dim_pairs rename_table = dim_table" "var_pairs rename_table = var_table"
  by (simp_all add: rename_table_def dim_table_def var_table_def)

lemma dim_table_disjoint: "fst ` set dim_table \<inter> snd ` set dim_table = {}"
  by (simp add: dim_table_def)

lemma var_table_disjoint: "fst ` set var_table \<inter> snd ` set var_table = {}"
  by (simp add: var_table_def)

lemma subst_not_old:
  assumes "fst ` set ps \<inter> snd ` set ps = {}"
  shows "subst ps n \<notin> fst ` set ps"
proof (cases "map_of ps n")
  case None
  then have "n \<notin> fst ` set ps" by (simp add: map_of_eq_None_iff)
  with None show ?thesis by (simp add: subst_def)
next
  case (Some m)
  then have "(n, m) \<in> set ps" by (rule map_of_SomeD)
  then have "m \<in> snd ` set ps" by force
  with assms have "m \<notin> fst ` set ps" by blast
  with Some show ?thesis by (simp add: subst_def)
qed

lemma subst_old:
  assumes "distinct (map fst ps)" and "(a, b) \<in> set ps"
  shows "subst ps a = b"
  using assms by (simp add: subst_def)

lemma subst_other:
  assumes "n \<notin> fst ` set ps"
  shows "subst ps n = n"
proof -
  from assms have "map_of ps n = None" by (simp add: map_of_eq_None_iff)
  then show ?thesis by (simp add: subst_def)
qed

text \<open>A successful conversion of a plain path, with plain temporary names.\<close>

lemma convert_plain:
  assumes ok: "convert_to_scrip_output env (Some wp) w = (Inr p, w')"
    and old: "fs w wp = Some (Nc f_old)"
    and pw: "plain wp" and pt: "\<forall>j. plain (tmp_path env ''.nc'' j)"
  shows "\<exists>f_ren f1 idx S f2.
     apply_renames rename_table f_old = Some f_ren
     \<and> createVariable ''remap_matrix'' [''num_links'', ''num_wgts''] f_ren = Inr (f1, idx)
     \<and> getvar ''S'' f_old = Inr S \<and> assign_column0 idx (var_data S) f1 = Inr f2
     \<and> fs w' p = Some (Nc f2) \<and> fs w' wp = None"
proof -
  from convert_Inr [OF ok] obtain wp' argv f_ren f_old' f1 idx S f2 where
    q: "Some wp = Some wp'" and fresh: "fs w p = None" and pj: "\<exists>j. p = tmp_path env ''.nc'' j"
    and sp: "shlex_split (rename_cmd wp' p) = Inr (''ncrename'' # argv)"
    and res: "ncrename_result argv (fs w) = Some f_ren"
    and old': "((fs w)(p \<mapsto> Nc f_ren)) wp' = Some (Nc f_old')"
    and cv: "createVariable ''remap_matrix'' [''num_links'', ''num_wgts''] f_ren = Inr (f1, idx)"
    and gv: "getvar ''S'' f_old' = Inr S" and av: "assign_column0 idx (var_data S) f1 = Inr f2"
    and fs': "fs w' = ((fs w)(p \<mapsto> Nc f2))(wp' := None)"
    by blast
  from q have wp': "wp' = wp" by simp
  from fresh old have ne: "p \<noteq> wp" by auto
  from old' wp' ne old have fo: "f_old' = f_old" by simp
  from pj pt have pp: "plain p" by auto
  have "shlex_split (rename_cmd wp p) = Inr (''ncrename'' # concat (map rename_flag rename_table) @ [wp, p])"
    using shlex_two_plain [OF pw pp] by (simp add: shlex_rename_cmd)
  with sp wp' have argv: "argv = concat (map rename_flag rename_table) @ [wp, p]" by simp
  from res argv old have ren: "apply_renames rename_table f_old = Some f_ren"
    by (simp add: ncrename_plain [OF pw pp])
  from fs' wp' ne have "fs w' p = Some (Nc f2)" "fs w' wp = None" by simp_all
  with ren cv gv av fo show ?thesis by blast
qed

lemma dim_pos_subst:
  assumes "\<forall>n\<in>fst ` set ds. (\<sigma> n = y) = (n = x)"
  shows "dim_pos y (map (\<lambda>(n, k). (\<sigma> n, k)) ds) = dim_pos x ds"
  using assms by (induction ds) auto

lemma links_renamed:
  assumes "''num_links'' \<noteq> n"
  shows "(subst dim_table n = ''num_links'') = (n = ''n_s'')"
  using assms by (auto simp: subst_def dim_table_def)

lemma find_append_last:
  "\<forall>x\<in>set xs. \<not> P x \<Longrightarrow> P y \<Longrightarrow> find P (xs @ [y]) = Some y"
  by (induction xs) auto

lemma find_var_last:
  assumes "find_var n f = None" and "nc_vars f' = nc_vars f @ [v]" and "var_name v = n"
  shows "find_var n f' = Some v"
proof -
  from assms(1) have "\<forall>u\<in>set (nc_vars f). var_name u \<noteq> n"
    by (simp add: find_var_def find_None_iff)
  then have "find (\<lambda>u. var_name u = n) (nc_vars f @ [v]) = Some v"
    using assms(3) by (intro find_append_last) simp_all
  then show ?thesis using assms(2) by (simp add: find_var_def)
qed

lemma table_facts:
  "length (dim_table @ var_table) = 21"
  "distinct (map fst dim_table)" "distinct (map snd dim_table)"
  "distinct (map fst var_table)" "distinct (map snd var_table)"
  by (simp_all add: dim_table_def var_table_def)

subsection \<open>The temporary names of the small environment\<close>

lemma digit_char_digit: "d < 10 \<Longrightarrow> digit_char d \<in> set ''0123456789''"
  unfolding digit_char_def by (rule nth_mem) simp

lemma str_nat_digits: "set (str_nat n) \<subseteq> set ''0123456789''"
proof (induction n rule: str_nat.induct)
  case (1 n)
  show ?case
  proof (cases "n < 10")
    case True
    then show ?thesis using digit_char_digit [of n] by (subst str_nat.simps) simp
  next
    case False
    then have "n mod 10 < 10" by simp
    with False 1 digit_char_digit [of "n mod 10"] show ?thesis
      by (subst str_nat.simps) simp
  qed
qed

lemma demo_tmp_plain: "plain (tmp_path demo_env ''.nc'' j)"
proof -
  have p: "tmp_path demo_env ''.nc'' j = ''/tmp/tmp'' @ str_nat j @ ''.nc''"
    by (simp add: tmp_path_def demo_env_def join2_def)
  have "\<forall>c\<in>set (str_nat j). \<not> is_space c \<and> c \<noteq> squote \<and> c \<noteq> dquote \<and> c \<noteq> backslash"
    using str_nat_digits [of j] by (auto simp: is_space_def squote_def dquote_def backslash_def)
  then show ?thesis
    unfolding p plain_def
    by (auto simp: is_space_def squote_def dquote_def backslash_def)
qed

lemma fix_remap_matrix_missing:
  assumes "fs w n = None"
  shows "\<exists>e. fix_remap_matrix q n w = (Inl e, w)"
proof (cases "open_dataset q w")
  case (Pair r w1)
  have w1: "w1 = w" using Pair by (auto simp: open_dataset_def split: option.splits fdata.splits)
  have n: "open_dataset (Some n) w = (Inl (IOError n), w)"
    using assms by (simp add: open_dataset_def)
  show ?thesis
    using Pair w1 n by (cases r) (simp_all add: fix_remap_matrix_def comp_simps)
qed

subsection \<open>One combination, from the grids to the final file\<close>













subsection \<open>Invariants of the calls\<close>

lemma keeps_bind:
  assumes "keeps I m Q" and "\<And>x. Q x \<Longrightarrow> keeps I (f x) R"
  shows "keeps I (bind m f) R"
  unfolding keeps_def
proof (intro allI impI)
  fix s assume s: "I s"
  obtain r s' where ms: "m s = (r, s')" by (cases "m s")
  from assms(1) s ms have s': "I s'" and q: "\<forall>x. r = Inr x \<longrightarrow> Q x"
    by (auto simp: keeps_def)
  show "I (snd (bind m f s)) \<and> (\<forall>x. fst (bind m f s) = Inr x \<longrightarrow> R x)"
  proof (cases r)
    case (Inl e)
    with ms s' show ?thesis by (simp add: bind_apply)
  next
    case (Inr x)
    with q have "Q x" by simp
    from assms(2) [OF this] s' have "I (snd (f x s')) \<and> (\<forall>y. fst (f x s') = Inr y \<longrightarrow> R y)"
      by (simp add: keeps_def)
    with ms Inr show ?thesis by (simp add: bind_apply)
  qed
qed

lemma keeps_weaken: "keeps I m Q \<Longrightarrow> (\<And>x. Q x \<Longrightarrow> R x) \<Longrightarrow> keeps I m R"
  by (auto simp: keeps_def)

lemma keeps_then:
  assumes "keeps I m (\<lambda>_. True)" and "\<And>x. keeps I (f x) R"
  shows "keeps I (bind m f) R"
  using assms(1) by (rule keeps_bind) (rule assms(2))

lemma keeps_ret: "Q x \<Longrightarrow> keeps I (ret x) Q"
  by (simp add: keeps_def ret_apply)

lemma keeps_raise: "keeps I (raise e) Q"
  by (simp add: keeps_def raise_apply)

lemma keeps_calls:
  assumes "\<And>w. calls (snd (m w)) = calls w"
  shows "keeps (calls_ok P) m (\<lambda>_. True)"
  using assms by (simp add: keeps_def calls_ok_def)

lemma keeps_mkstemp: "keeps (calls_ok P) (mkstemp env suffix) (\<lambda>_. True)"
  by (rule keeps_calls) (simp add: mkstemp_def split: option.splits)

lemma keeps_os_remove: "keeps (calls_ok P) (os_remove p) (\<lambda>_. True)"
  by (rule keeps_calls) (simp add: os_remove_def)

lemma keeps_shutil_move: "keeps (calls_ok P) (shutil_move a b) (\<lambda>_. True)"
  by (rule keeps_calls) (simp add: shutil_move_def split: option.splits)

lemma keeps_lookup: "keeps (calls_ok P) (lookup d k) (\<lambda>_. True)"
  by (rule keeps_calls) (simp add: lookup_def comp_simps split: option.splits)

lemma keeps_index: "keeps (calls_ok P) (index v i) (\<lambda>_. True)"
  by (rule keeps_calls) (simp add: index_def comp_simps split: gdef.splits)

lemma keeps_construct: "keeps (calls_ok P) (construct env cls files) (\<lambda>g. g_class g = cls)"
  by (auto simp: keeps_def construct_def split: sum.splits)

lemma keeps_fix_remap_matrix: "keeps (calls_ok P) (fix_remap_matrix q n) (\<lambda>_. True)"
proof (rule keeps_calls)
  fix w :: "'a world"
  have o: "\<And>p (s :: 'a world). snd (open_dataset p s) = s"
    by (simp add: open_dataset_def split: option.splits fdata.splits)
  obtain r1 where r1: "open_dataset q w = (r1, w)" using o [of q w] by (cases "open_dataset q w") simp
  obtain r2 where r2: "open_dataset (Some n) w = (r2, w)"
    using o [of "Some n" w] by (cases "open_dataset (Some n) w") simp
  show "calls (snd (fix_remap_matrix q n w)) = calls w"
    using r1 r2
    by (auto simp: fix_remap_matrix_def comp_simps store_def split: sum.splits prod.splits)
qed

lemma keeps_try_rename:
  assumes rn: "\<And>argv. P (Spawn (''ncrename'' # argv))"
  shows "keeps (calls_ok P) (try_rename env (rename_cmd a b)) (\<lambda>_. True)"
  unfolding keeps_def
proof (intro allI impI conjI)
  fix w :: "'a world" assume inv: "calls_ok P w"
  show "calls_ok P (snd (try_rename env (rename_cmd a b) w))"
  proof (cases "shlex Between [] (a @ '' '' @ b)")
    case (Inl e)
    then show ?thesis using inv
      by (auto simp: try_rename_def comp_simps shlex_rename_cmd eprint_def calls_ok_def
            split: error.splits)
  next
    case (Inr ps)
    let ?argv = "concat (map rename_flag rename_table) @ ps"
    have sp: "shlex_split (rename_cmd a b) = Inr (''ncrename'' # ?argv)"
      using Inr by (simp add: shlex_rename_cmd)
    have co: "check_output env (''ncrename'' # ?argv) = run_ncrename env ?argv"
      by (simp add: check_output_def)
    have d: "P (Spawn (''ncrename'' # ?argv))"
      by (rule rn)
    from run_ncrename_cases [of env ?argv w] show ?thesis
      using sp co d inv
      by (auto simp: try_rename_def comp_simps eprint_def calls_ok_def)
  qed
qed simp

lemma keeps_convert:
  assumes rn: "\<And>argv. P (Spawn (''ncrename'' # argv))"
  shows "keeps (calls_ok P) (convert_to_scrip_output env q) (\<lambda>_. True)"
  unfolding convert_to_scrip_output_def
  by (intro keeps_then keeps_mkstemp keeps_os_remove keeps_try_rename [of P, OF rn]
        keeps_fix_remap_matrix keeps_ret)
     (auto intro: keeps_raise keeps_os_remove keeps_ret split: option.splits)

lemma keeps_write_scrip:
  assumes "P (WriteScrip p g (case ov of None \<Rightarrow> mask_t g | Some k \<Rightarrow> k))"
  shows "keeps (calls_ok P) (write_scrip g p ov) (\<lambda>_. True)"
  using assms by (simp add: keeps_def write_scrip_apply calls_ok_def)

lemma keeps_run_regrid:
  assumes "\<And>w. P (Spawn (regrid_cmd env w p1 p2 m p3 ign))"
  shows "keeps (calls_ok P) (run_regrid env p1 p2 m p3 ign) (\<lambda>_. True)"
  using calls_run_regrid [of env p1 p2 m p3 ign] assms
  by (simp add: keeps_def calls_ok_def)

text \<open>
  The calls of the driver: the rename utility, an atmosphere grid written with zeros, an
  ocean grid written with its own mask, and the weight generator run without
  \<^verbatim>\<open>--ignore_unmapped\<close>. A property that all of these have holds of every call.
\<close>

lemma keeps_create_weights:
  assumes zero: "\<And>p g. g_class g \<noteq> MomGrid \<Longrightarrow> P (WriteScrip p g (zeros_like (mask_t g)))"
    and own: "\<And>p g. g_class g = MomGrid \<Longrightarrow> P (WriteScrip p g (mask_t g))"
    and gen: "\<And>w p1 p2 p3. P (Spawn (regrid_cmd env w p1 p2 m p3 False))"
    and "g_class src \<noteq> MomGrid" and "g_class dest = MomGrid"
  shows "keeps (calls_ok P) (create_weights env src dest m False True False) (\<lambda>_. True)"
  unfolding create_weights_def using assms(4,5)
  by (intro keeps_then keeps_mkstemp keeps_run_regrid gen)
     (simp_all add: keeps_write_scrip zero own)

lemma keeps_source:
  "keeps (calls_ok P)
     (if a = ''CORE2'' then bind (lookup d a) (\<lambda>v. construct env Core2Grid (paths_of v))
      else if a = ''JRA55'' then bind (lookup d a) (\<lambda>v. construct env Jra55Grid (paths_of v))
      else raise (NameError ''Jra552RiverGrid''))
     (\<lambda>g. g_class g \<noteq> MomGrid)"
proof -
  have "\<And>cls k. cls \<noteq> MomGrid \<Longrightarrow>
      keeps (calls_ok P) (bind (lookup d k) (\<lambda>v. construct env cls (paths_of v)))
        (\<lambda>g. g_class g \<noteq> MomGrid)"
    by (intro keeps_then keeps_lookup keeps_weaken [OF keeps_construct]) simp
  then show ?thesis by (auto simp: keeps_raise)
qed

lemma keeps_combination:
  assumes rn: "\<And>argv. P (Spawn (''ncrename'' # argv))"
    and zero: "\<And>p g. g_class g \<noteq> MomGrid \<Longrightarrow> P (WriteScrip p g (zeros_like (mask_t g)))"
    and own: "\<And>p g. g_class g = MomGrid \<Longrightarrow> P (WriteScrip p g (mask_t g))"
    and gen: "\<And>w p1 p2 p3. P (Spawn (regrid_cmd env w p1 p2 m p3 False))"
  shows "keeps (calls_ok P) (combination env d a oc m) (\<lambda>_. True)"
  unfolding combination_def
  apply (rule keeps_bind [OF keeps_source])
  apply (rule keeps_then [OF keeps_lookup])
  apply (rule keeps_then [OF keeps_index])
  apply (rule keeps_then [OF keeps_lookup])
  apply (rule keeps_then [OF keeps_index])
  apply (rule keeps_bind [OF keeps_construct])
  apply (rule keeps_then [OF keeps_create_weights [of P env m, OF zero own gen]])
        apply assumption
       apply assumption
      apply assumption
     apply assumption
  apply (rule keeps_then [OF keeps_convert [of P, OF rn]])
  apply (rule keeps_shutil_move)
  done

lemma keeps_for_each:
  assumes "\<And>x. x \<in> set xs \<Longrightarrow> keeps I (body x) (\<lambda>_. True)"
  shows "keeps I (for_each body xs) (\<lambda>_. True)"
  using assms by (induction xs) (auto intro: keeps_ret keeps_then)

lemma keeps_usage_exit: "keeps (calls_ok P) usage_exit (\<lambda>_. True)"
  by (simp add: keeps_def usage_exit_apply calls_ok_def)

lemma keeps_loops:
  assumes rn: "\<And>argv. P (Spawn (''ncrename'' # argv))"
    and zero: "\<And>p g. g_class g \<noteq> MomGrid \<Longrightarrow> P (WriteScrip p g (zeros_like (mask_t g)))"
    and own: "\<And>p g. g_class g = MomGrid \<Longrightarrow> P (WriteScrip p g (mask_t g))"
    and gen: "\<And>m w p1 p2 p3. m \<in> set methods \<Longrightarrow> P (Spawn (regrid_cmd env w p1 p2 m p3 False))"
  shows "keeps (calls_ok P)
           (for_each (\<lambda>x. for_each (\<lambda>y. for_each (\<lambda>z. combination env d x y z) methods) oceans) atms)
           (\<lambda>_. True)"
  by (intro keeps_for_each keeps_combination rn zero own gen)

lemma keeps_main:
  assumes rn: "\<And>argv. P (Spawn (''ncrename'' # argv))"
    and zero: "\<And>p g. g_class g \<noteq> MomGrid \<Longrightarrow> P (WriteScrip p g (zeros_like (mask_t g)))"
    and own: "\<And>p g. g_class g = MomGrid \<Longrightarrow> P (WriteScrip p g (mask_t g))"
    and gen: "\<And>m w p1 p2 p3. m \<in> set (choices (method_arg a) method_options) \<Longrightarrow>
                P (Spawn (regrid_cmd env w p1 p2 m p3 False))"
  shows "keeps (calls_ok P) (main env a) (\<lambda>_. True)"
proof -
  have "keeps (calls_ok P)
          (bind (for_each (\<lambda>x. for_each (\<lambda>y. for_each (\<lambda>z.
                   combination env (find_grid_defs (input_dir a) (jra55_input a)) x y z)
                   (choices (method_arg a) method_options))
                   (choices (ocean a) ocean_options)) (choices (atm a) atm_options))
                (\<lambda>_. ret (0::int))) (\<lambda>_. True)"
    by (intro keeps_then keeps_loops keeps_ret rn zero own gen) simp_all
  then show ?thesis
    by (simp add: main_def Let_def keeps_usage_exit)
qed

lemma regrid_cmd_default: "default_call (Spawn (regrid_cmd env w p1 p2 m p3 False))"
  by (simp add: default_call_def regrid_cmd_def Let_def)

lemma keeps_main_default: "keeps (calls_ok default_call) (main env a) (\<lambda>_. True)"
proof (rule keeps_main)
  fix argv show "default_call (Spawn (''ncrename'' # argv))"
    by (simp add: default_call_def)
next
  fix p and g :: grid assume "g_class g \<noteq> MomGrid"
  then show "default_call (WriteScrip p g (zeros_like (mask_t g)))"
    by (simp add: default_call_def)
next
  fix p and g :: grid assume "g_class g = MomGrid"
  then show "default_call (WriteScrip p g (mask_t g))"
    by (simp add: default_call_def)
next
  fix m p1 p2 p3 and w :: "'a world"
  show "default_call (Spawn (regrid_cmd env w p1 p2 m p3 False))"
    by (rule regrid_cmd_default)
qed

lemma regrid_cmd_method: "method_call m (Spawn (regrid_cmd env w p1 p2 m p3 ign))"
  by (simp add: method_call_def regrid_cmd_def Let_def)

lemma keeps_main_method:
  "keeps (calls_ok (method_call m)) (main env (a\<lparr>method_arg := Some m\<rparr>)) (\<lambda>_. True)"
proof (rule keeps_main)
  fix argv show "method_call m (Spawn (''ncrename'' # argv))"
    by (simp add: method_call_def)
next
  fix p and g :: grid show "method_call m (WriteScrip p g (zeros_like (mask_t g)))"
    by (simp add: method_call_def)
next
  fix p and g :: grid show "method_call m (WriteScrip p g (mask_t g))"
    by (simp add: method_call_def)
next
  fix m' p1 p2 p3 and w :: "'a world"
  assume "m' \<in> set (choices (method_arg (a\<lparr>method_arg := Some m\<rparr>)) method_options)"
  then have "m' = m" by (simp add: choices_def)
  then show "method_call m (Spawn (regrid_cmd env w p1 p2 m' p3 False))"
    by (simp add: regrid_cmd_method)
qed

lemma main_method_given:
  assumes "\<not> bad_choice (atm a) atm_options" and "\<not> bad_choice (ocean a) ocean_options"
  shows "main env (a\<lparr>method_arg := Some m\<rparr>) =
           bind (for_each (\<lambda>x. for_each (\<lambda>y. for_each (\<lambda>z.
                    combination env (find_grid_defs (input_dir a) (jra55_input a)) x y z) [m])
                    (choices (ocean a) ocean_options)) (choices (atm a) atm_options))
                (\<lambda>_. ret 0)"
  using assms by (simp add: main_def Let_def choices_def)

section \<open>The claims\<close>

text \<open>
  C1. Without filters the driver should process all eighteen combinations, dispatching each
  atmosphere grid to its constructor. It does not: the branch for \<^verbatim>\<open>JRA55_runoff\<close>
  names \<^verbatim>\<open>Jra552RiverGrid\<close>, which is not defined, so every combination with that
  grid raises \<^verbatim>\<open>NameError\<close> before doing anything, the run without filters ends in
  an exception in every environment, and the run for \<^verbatim>\<open>JRA55_runoff\<close> alone does
  nothing but raise.
\<close>

theorem main_without_filters_raises:
  "(\<exists>e. fst (main env \<lparr>input_dir = i, jra55_input = j, atm = None, ocean = None,
                        method_arg = None\<rparr> w) = Inl e)
   \<and> (\<forall>d oc m. combination env d ''JRA55_runoff'' oc m w =
                 (Inl (NameError ''Jra552RiverGrid''), w))
   \<and> main env \<lparr>input_dir = i, jra55_input = j, atm = Some ''JRA55_runoff'', ocean = None,
                 method_arg = None\<rparr> w = (Inl (NameError ''Jra552RiverGrid''), w)"
  by (simp add: main_def bad_choice_def choices_def atm_options_def ocean_options_def
      method_options_def comp_simps runoff_combination split: prod.splits sum.splits)

text \<open>
  C2, as amended. A value of \<^verbatim>\<open>--atm\<close> or \<^verbatim>\<open>--ocean\<close> outside the options of that
  filter makes \<open>main\<close> print the usage message and return 1, with no external call and no
  file touched. A value of \<^verbatim>\<open>--method\<close> is not checked against the method options: when
  the two grid filters are absent or among their options, \<open>main\<close> with the method \<open>m\<close>,
  whatever \<open>m\<close> is, is the three loops with \<open>m\<close> as the only method, and every command
  line of the weight generator in that run carries \<open>m\<close> after \<^verbatim>\<open>-m\<close>, as given. The
  claim as stated also covers \<^verbatim>\<open>--method\<close>: the counterexample runs the script with the
  method \<^verbatim>\<open>bilinear\<close> to exit code 0.
\<close>

theorem invalid_grid_filter_usage:
  "((\<exists>x. atm a = Some x \<and> x \<notin> set atm_options)
      \<or> (\<exists>y. ocean a = Some y \<and> y \<notin> set ocean_options) \<longrightarrow>
      fst (main env a w) = Inr 1
    \<and> stdout (snd (main env a w)) = stdout w @ [Usage]
    \<and> stderr (snd (main env a w)) = stderr w @ [Line ''Error: bad atm grid.'']
    \<and> calls (snd (main env a w)) = calls w
    \<and> fs (snd (main env a w)) = fs w)
   \<and> ((\<forall>x. atm a = Some x \<longrightarrow> x \<in> set atm_options)
      \<and> (\<forall>y. ocean a = Some y \<longrightarrow> y \<in> set ocean_options) \<longrightarrow>
      main env (a\<lparr>method_arg := Some m\<rparr>) w =
        bind (for_each (\<lambda>x. for_each (\<lambda>y. for_each (\<lambda>z.
                 combination env (find_grid_defs (input_dir a) (jra55_input a)) x y z) [m])
                 (choices (ocean a) ocean_options)) (choices (atm a) atm_options))
             (\<lambda>_. ret 0) w)
   \<and> (list_all (method_call m) (calls w) \<longrightarrow>
      list_all (method_call m) (calls (snd (main env (a\<lparr>method_arg := Some m\<rparr>) w))))"
proof (intro conjI impI)
  assume "(\<exists>x. atm a = Some x \<and> x \<notin> set atm_options)
      \<or> (\<exists>y. ocean a = Some y \<and> y \<notin> set ocean_options)"
  then have "bad_choice (atm a) atm_options \<or> bad_choice (ocean a) ocean_options"
    by (auto simp: bad_choice_def)
  then have u: "main env a w = usage_exit w" by (rule main_bad_choice)
  show "fst (main env a w) = Inr 1" by (simp add: u usage_exit_apply)
  show "stdout (snd (main env a w)) = stdout w @ [Usage]" by (simp add: u usage_exit_apply)
  show "stderr (snd (main env a w)) = stderr w @ [Line ''Error: bad atm grid.'']"
    by (simp add: u usage_exit_apply)
  show "calls (snd (main env a w)) = calls w" by (simp add: u usage_exit_apply)
  show "fs (snd (main env a w)) = fs w" by (simp add: u usage_exit_apply)
next
  assume "(\<forall>x. atm a = Some x \<longrightarrow> x \<in> set atm_options)
      \<and> (\<forall>y. ocean a = Some y \<longrightarrow> y \<in> set ocean_options)"
  then have "\<not> bad_choice (atm a) atm_options" and "\<not> bad_choice (ocean a) ocean_options"
    by (auto simp: bad_choice_def split: option.splits)
  then show "main env (a\<lparr>method_arg := Some m\<rparr>) w =
        bind (for_each (\<lambda>x. for_each (\<lambda>y. for_each (\<lambda>z.
                 combination env (find_grid_defs (input_dir a) (jra55_input a)) x y z) [m])
                 (choices (ocean a) ocean_options)) (choices (atm a) atm_options))
             (\<lambda>_. ret 0) w"
    by (simp add: main_method_given)
next
  assume "list_all (method_call m) (calls w)"
  with keeps_main_method [of m env a]
  show "list_all (method_call m) (calls (snd (main env (a\<lparr>method_arg := Some m\<rparr>) w)))"
    by (simp add: keeps_def calls_ok_def)
qed

theorem invalid_grid_filter_usage_witness:
  "((\<exists>x. atm (demo_args\<lparr>ocean := Some ''MOM2''\<rparr>) = Some x \<and> x \<notin> set atm_options)
    \<or> (\<exists>y. ocean (demo_args\<lparr>ocean := Some ''MOM2''\<rparr>) = Some y \<and> y \<notin> set ocean_options))
   \<and> fst (main demo_env (demo_args\<lparr>ocean := Some ''MOM2''\<rparr>) demo_world) = Inr 1
   \<and> stdout (snd (main demo_env (demo_args\<lparr>ocean := Some ''MOM2''\<rparr>) demo_world)) = [Usage]
   \<and> atm demo_args = Some ''CORE2'' \<and> ''CORE2'' \<in> set atm_options
   \<and> ocean demo_args = Some ''MOM1'' \<and> ''MOM1'' \<in> set ocean_options
   \<and> ''bilinear'' \<notin> set method_options
   \<and> fst (main demo_env (demo_args\<lparr>method_arg := Some ''bilinear''\<rparr>) demo_world) = Inr 0
   \<and> list_all (method_call ''bilinear'') (calls demo_world)
   \<and> list_all (method_call ''bilinear'')
        (calls (snd (main demo_env (demo_args\<lparr>method_arg := Some ''bilinear''\<rparr>) demo_world)))
   \<and> length (calls (snd (main demo_env (demo_args\<lparr>method_arg := Some ''bilinear''\<rparr>) demo_world))) = 4"
proof -
  have h: "(\<exists>x. atm (demo_args\<lparr>ocean := Some ''MOM2''\<rparr>) = Some x \<and> x \<notin> set atm_options)
    \<or> (\<exists>y. ocean (demo_args\<lparr>ocean := Some ''MOM2''\<rparr>) = Some y \<and> y \<notin> set ocean_options)"
    by (simp add: demo_args_def ocean_options_def)
  from invalid_grid_filter_usage
         [where a = "demo_args\<lparr>ocean := Some ''MOM2''\<rparr>" and env = demo_env and w = demo_world
            and m = "''bilinear''"] h
  have "fst (main demo_env (demo_args\<lparr>ocean := Some ''MOM2''\<rparr>) demo_world) = Inr 1
     \<and> stdout (snd (main demo_env (demo_args\<lparr>ocean := Some ''MOM2''\<rparr>) demo_world)) =
         stdout demo_world @ [Usage]"
    by blast
  then have bad: "fst (main demo_env (demo_args\<lparr>ocean := Some ''MOM2''\<rparr>) demo_world) = Inr 1
     \<and> stdout (snd (main demo_env (demo_args\<lparr>ocean := Some ''MOM2''\<rparr>) demo_world)) = [Usage]"
    by (simp add: demo_world_def)
  have g: "atm demo_args = Some ''CORE2''" "''CORE2'' \<in> set atm_options"
    "ocean demo_args = Some ''MOM1''" "''MOM1'' \<in> set ocean_options"
    "''bilinear'' \<notin> set method_options"
    by (simp_all add: demo_args_def atm_options_def ocean_options_def method_options_def)
  note t = invalid_grid_filter_usage
         [where a = demo_args and env = demo_env and w = demo_world and m = "''bilinear''"]
  from g have v: "(\<forall>x. atm demo_args = Some x \<longrightarrow> x \<in> set atm_options)
      \<and> (\<forall>y. ocean demo_args = Some y \<longrightarrow> y \<in> set ocean_options)"
    by simp
  from t v have eq: "main demo_env (demo_args\<lparr>method_arg := Some ''bilinear''\<rparr>) demo_world =
        bind (for_each (\<lambda>x. for_each (\<lambda>y. for_each (\<lambda>z.
                 combination demo_env (find_grid_defs (input_dir demo_args) (jra55_input demo_args))
                   x y z) [''bilinear''])
                 (choices (ocean demo_args) ocean_options)) (choices (atm demo_args) atm_options))
             (\<lambda>_. ret 0) demo_world"
    by blast
  have "fst (bind (for_each (\<lambda>x. for_each (\<lambda>y. for_each (\<lambda>z.
                 combination demo_env (find_grid_defs (input_dir demo_args) (jra55_input demo_args))
                   x y z) [''bilinear''])
                 (choices (ocean demo_args) ocean_options)) (choices (atm demo_args) atm_options))
             (\<lambda>_. ret (0::int)) demo_world) = Inr 0"
    by code_simp
  with eq have run: "fst (main demo_env (demo_args\<lparr>method_arg := Some ''bilinear''\<rparr>) demo_world) = Inr 0"
    by simp
  have e: "list_all (method_call ''bilinear'') (calls demo_world)"
    by (simp add: demo_world_def)
  with t have c: "list_all (method_call ''bilinear'')
        (calls (snd (main demo_env (demo_args\<lparr>method_arg := Some ''bilinear''\<rparr>) demo_world)))"
    by blast
  have n: "length (calls (snd (main demo_env (demo_args\<lparr>method_arg := Some ''bilinear''\<rparr>) demo_world))) = 4"
    by code_simp
  from h bad g run e c n show ?thesis by (intro conjI) simp_all
qed

theorem method_filter_unchecked:
  "''bilinear'' \<notin> set method_options
   \<and> fst (script demo_env (demo_args\<lparr>method_arg := Some ''bilinear''\<rparr>) demo_world) = 0
   \<and> Usage \<notin> set (stdout (snd (script demo_env (demo_args\<lparr>method_arg := Some ''bilinear''\<rparr>) demo_world)))
   \<and> fs (snd (script demo_env (demo_args\<lparr>method_arg := Some ''bilinear''\<rparr>) demo_world))
        ''CORE2_MOM1_bilinear.nc'' \<noteq> None"
  by code_simp

text \<open>
  C3. With a value of \<^verbatim>\<open>--atm\<close> outside CORE2, JRA55, JRA55_runoff, or a value of
  \<^verbatim>\<open>--ocean\<close> outside MOM1, MOM01, MOM025, the process exits with code 1, and the file
  system is what it was: no weight file is created, no external program is run.
\<close>

theorem invalid_grid_exit_code:
  assumes "(\<exists>x. atm a = Some x \<and> x \<notin> {''CORE2'', ''JRA55'', ''JRA55_runoff''})
         \<or> (\<exists>y. ocean a = Some y \<and> y \<notin> {''MOM1'', ''MOM01'', ''MOM025''})"
  shows "fst (script env a w) = 1
       \<and> fs (snd (script env a w)) = fs w
       \<and> calls (snd (script env a w)) = calls w"
proof -
  have "bad_choice (atm a) atm_options \<or> bad_choice (ocean a) ocean_options"
    using assms by (auto simp: bad_choice_def atm_options_def ocean_options_def)
  then have "main env a w = usage_exit w" by (rule main_bad_choice)
  then show ?thesis by (simp add: script_def usage_exit_apply)
qed

theorem invalid_grid_exit_code_witness:
  "((\<exists>x. atm (demo_args\<lparr>atm := Some ''ERA5''\<rparr>) = Some x \<and> x \<notin> {''CORE2'', ''JRA55'', ''JRA55_runoff''})
    \<or> (\<exists>y. ocean (demo_args\<lparr>atm := Some ''ERA5''\<rparr>) = Some y \<and> y \<notin> {''MOM1'', ''MOM01'', ''MOM025''}))
   \<and> fst (script demo_env (demo_args\<lparr>atm := Some ''ERA5''\<rparr>) demo_world) = 1
   \<and> fs (snd (script demo_env (demo_args\<lparr>atm := Some ''ERA5''\<rparr>) demo_world)) = Map.empty"
proof -
  have h: "(\<exists>x. atm (demo_args\<lparr>atm := Some ''ERA5''\<rparr>) = Some x \<and> x \<notin> {''CORE2'', ''JRA55'', ''JRA55_runoff''})
    \<or> (\<exists>y. ocean (demo_args\<lparr>atm := Some ''ERA5''\<rparr>) = Some y \<and> y \<notin> {''MOM1'', ''MOM01'', ''MOM025''})"
    by (simp add: demo_args_def)
  from invalid_grid_exit_code [OF h, of demo_env demo_world] h show ?thesis
    by (simp add: demo_world_def)
qed

text \<open>
  C4. \<open>create_weights\<close> writes the grid description of each side with a mask of zeros of
  the shape of the grid's mask if the flag of that side is set, and with the grid's own
  mask if it is not: the source file first, the destination file second, and these two
  files are the ones passed to the generator after \<^verbatim>\<open>-s\<close> and \<^verbatim>\<open>-d\<close>. The only
  way not to get there is that \<^verbatim>\<open>mkstemp\<close> finds no free name.
\<close>

theorem create_weights_masks:
  assumes "fst (create_weights env src dest m ign us ud w) \<noteq>
             Inl (FileExistsError ''No usable temporary file name found'')"
  shows "(\<exists>p1 p2 p3 w0. calls (snd (create_weights env src dest m ign us ud w)) =
           calls w @ [WriteScrip p1 src (if us then zeros_like (mask_t src) else mask_t src),
                      WriteScrip p2 dest (if ud then zeros_like (mask_t dest) else mask_t dest),
                      Spawn (regrid_cmd env w0 p1 p2 m p3 ign)])
       \<and> map length (zeros_like (mask_t src)) = map length (mask_t src)
       \<and> map length (zeros_like (mask_t dest)) = map length (mask_t dest)
       \<and> list_all (list_all (\<lambda>x. x = 0)) (zeros_like (mask_t src))
       \<and> list_all (list_all (\<lambda>x. x = 0)) (zeros_like (mask_t dest))"
proof -
  have "\<exists>p1 p2 p3 w0. calls (snd (create_weights env src dest m ign us ud w)) =
           calls w @ [WriteScrip p1 src (if us then zeros_like (mask_t src) else mask_t src),
                      WriteScrip p2 dest (if ud then zeros_like (mask_t dest) else mask_t dest),
                      Spawn (regrid_cmd env w0 p1 p2 m p3 ign)]"
    using create_weights_calls [OF assms] by blast
  then show ?thesis by (simp add: zeros_like_def list_all_iff)
qed

theorem create_weights_masks_witness:
  "fst (create_weights demo_env demo_src demo_dest ''patch'' False True False demo_world) \<noteq>
     Inl (FileExistsError ''No usable temporary file name found'')
   \<and> (\<exists>p1 p2 p3 w0.
        calls (snd (create_weights demo_env demo_src demo_dest ''patch'' False True False demo_world)) =
          [WriteScrip p1 demo_src [[0, 0], [0, 0]], WriteScrip p2 demo_dest [[1, 1], [0, 1]],
           Spawn (regrid_cmd demo_env w0 p1 p2 ''patch'' p3 False)])"
proof -
  have h: "fst (create_weights demo_env demo_src demo_dest ''patch'' False True False demo_world) \<noteq>
     Inl (FileExistsError ''No usable temporary file name found'')"
    by code_simp
  from create_weights_masks [OF h] h show ?thesis
    by (simp add: demo_world_def demo_src_def demo_dest_def zeros_like_def)
qed

text \<open>
  C5. \<open>create_weights\<close> runs the weight generator once: on the command line recorded
  as its last call, and on the file system as it is after the three temporary files have
  been created and the two grid descriptions written. If that run exits with a code other
  than 0, \<open>create_weights\<close> raises nothing and returns \<^verbatim>\<open>None\<close>; it prints to the
  error stream the return code and the captured output of that run and, if the file
  \<^verbatim>\<open>PET0.RegridWeightGen.Log\<close> exists, a header and the contents of that file. The only
  way not to get to the run is that \<^verbatim>\<open>mkstemp\<close> finds no free name.
\<close>

theorem create_weights_generator_failure:
  assumes tmp: "fst (create_weights env src dest m ign us ud w) \<noteq>
                  Inl (FileExistsError ''No usable temporary file name found'')"
  shows "\<exists>p1 p2 p3 w0.
           fs w0 = (fs w)(p1 \<mapsto> Text [], p2 \<mapsto> Text [], p3 \<mapsto> Text [],
                     p1 \<mapsto> Scrip src (if us then zeros_like (mask_t src) else mask_t src),
                     p2 \<mapsto> Scrip dest (if ud then zeros_like (mask_t dest) else mask_t dest))
         \<and> calls (snd (create_weights env src dest m ign us ud w)) =
             calls w @ [WriteScrip p1 src (if us then zeros_like (mask_t src) else mask_t src),
                        WriteScrip p2 dest (if ud then zeros_like (mask_t dest) else mask_t dest),
                        Spawn (regrid_cmd env w0 p1 p2 m p3 ign)]
         \<and> (\<forall>r. weight_gen env (regrid_cmd env w0 p1 p2 m p3 ign) (fs w0) = Some r
                  \<and> gen_ret r \<noteq> 0 \<longrightarrow>
                fst (create_weights env src dest m ign us ud w) = Inr None
              \<and> stderr (snd (create_weights env src dest m ign us ud w)) =
                  stderr w @
                  [Line (''Error: ESMF_RegridWeightGen failed ret '' @ str_int (gen_ret r)),
                   Line (gen_out r)] @
                  (case fs (snd (create_weights env src dest m ign us ud w))
                          ''PET0.RegridWeightGen.Log'' of
                     None \<Rightarrow> []
                   | Some f \<Rightarrow> [Line ''Contents of PET0.RegridWeightGen.Log:'',
                                Line (case f of Text t \<Rightarrow> t | _ \<Rightarrow> raw_text env f)]))"
proof -
  obtain p1 p2 p3 w0 where
    c: "calls (snd (create_weights env src dest m ign us ud w)) =
           calls w @ [WriteScrip p1 src (if us then zeros_like (mask_t src) else mask_t src),
                      WriteScrip p2 dest (if ud then zeros_like (mask_t dest) else mask_t dest),
                      Spawn (regrid_cmd env w0 p1 p2 m p3 ign)]"
    and eq: "create_weights env src dest m ign us ud w = run_regrid env p1 p2 m p3 ign w0"
    and err: "stderr w0 = stderr w"
    and files: "fs w0 = (fs w)(p1 \<mapsto> Text [], p2 \<mapsto> Text [], p3 \<mapsto> Text [],
                p1 \<mapsto> Scrip src (if us then zeros_like (mask_t src) else mask_t src),
                p2 \<mapsto> Scrip dest (if ud then zeros_like (mask_t dest) else mask_t dest))"
    using create_weights_calls [OF tmp] by blast
  have "\<forall>r. weight_gen env (regrid_cmd env w0 p1 p2 m p3 ign) (fs w0) = Some r
                  \<and> gen_ret r \<noteq> 0 \<longrightarrow>
                fst (create_weights env src dest m ign us ud w) = Inr None
              \<and> stderr (snd (create_weights env src dest m ign us ud w)) =
                  stderr w @
                  [Line (''Error: ESMF_RegridWeightGen failed ret '' @ str_int (gen_ret r)),
                   Line (gen_out r)] @
                  (case fs (snd (create_weights env src dest m ign us ud w))
                          ''PET0.RegridWeightGen.Log'' of
                     None \<Rightarrow> []
                   | Some f \<Rightarrow> [Line ''Contents of PET0.RegridWeightGen.Log:'',
                                Line (case f of Text t \<Rightarrow> t | _ \<Rightarrow> raw_text env f)])"
  proof (intro allI impI, elim conjE)
    fix r
    assume r: "weight_gen env (regrid_cmd env w0 p1 p2 m p3 ign) (fs w0) = Some r"
      "gen_ret r \<noteq> 0"
    from run_regrid_failure [OF r] eq err
    show "fst (create_weights env src dest m ign us ud w) = Inr None
              \<and> stderr (snd (create_weights env src dest m ign us ud w)) =
                  stderr w @
                  [Line (''Error: ESMF_RegridWeightGen failed ret '' @ str_int (gen_ret r)),
                   Line (gen_out r)] @
                  (case fs (snd (create_weights env src dest m ign us ud w))
                          ''PET0.RegridWeightGen.Log'' of
                     None \<Rightarrow> []
                   | Some f \<Rightarrow> [Line ''Contents of PET0.RegridWeightGen.Log:'',
                                Line (case f of Text t \<Rightarrow> t | _ \<Rightarrow> raw_text env f)])"
      by simp
  qed
  with files c show ?thesis by blast
qed

theorem create_weights_generator_failure_witness:
  "fst (create_weights failing_env demo_src demo_dest ''patch'' False True False demo_world) \<noteq>
       Inl (FileExistsError ''No usable temporary file name found'')
   \<and> fst (create_weights failing_env demo_src demo_dest ''patch'' False True False demo_world) =
       Inr None
   \<and> stderr (snd (create_weights failing_env demo_src demo_dest ''patch'' False True False
                    demo_world)) =
       [Line ''Error: ESMF_RegridWeightGen failed ret 2'', Line ''no overlap'',
        Line ''Contents of PET0.RegridWeightGen.Log:'', Line ''PET0 log'']"
proof -
  let ?run = "create_weights failing_env demo_src demo_dest ''patch'' False True False demo_world"
  have h: "fst ?run \<noteq> Inl (FileExistsError ''No usable temporary file name found'')"
    by code_simp
  from create_weights_generator_failure [OF h] obtain p1 p2 p3 and w0 :: "int world" where
    imp: "\<forall>r. weight_gen failing_env (regrid_cmd failing_env w0 p1 p2 ''patch'' p3 False) (fs w0) =
                 Some r \<and> gen_ret r \<noteq> 0 \<longrightarrow>
              fst ?run = Inr None
            \<and> stderr (snd ?run) =
                stderr demo_world @
                [Line (''Error: ESMF_RegridWeightGen failed ret '' @ str_int (gen_ret r)),
                 Line (gen_out r)] @
                (case fs (snd ?run) ''PET0.RegridWeightGen.Log'' of
                   None \<Rightarrow> []
                 | Some f \<Rightarrow> [Line ''Contents of PET0.RegridWeightGen.Log:'',
                              Line (case f of Text t \<Rightarrow> t | _ \<Rightarrow> raw_text failing_env f)])"
    by blast
  let ?r = "\<lparr>gen_ret = 2, gen_out = ''no overlap'', gen_weights = None :: int ncfile option,
             gen_log = Some ''PET0 log''\<rparr>"
  have g: "weight_gen failing_env (regrid_cmd failing_env w0 p1 p2 ''patch'' p3 False) (fs w0) =
      Some ?r \<and> gen_ret ?r \<noteq> 0"
    by (simp add: failing_env_def)
  have lg: "fs (snd ?run) ''PET0.RegridWeightGen.Log'' = Some (Text ''PET0 log'')"
    by code_simp
  have n: "str_int 2 = ''2''"
    by code_simp
  from imp g have "fst ?run = Inr None
            \<and> stderr (snd ?run) =
                stderr demo_world @
                [Line (''Error: ESMF_RegridWeightGen failed ret '' @ str_int (gen_ret ?r)),
                 Line (gen_out ?r)] @
                (case fs (snd ?run) ''PET0.RegridWeightGen.Log'' of
                   None \<Rightarrow> []
                 | Some f \<Rightarrow> [Line ''Contents of PET0.RegridWeightGen.Log:'',
                              Line (case f of Text t \<Rightarrow> t | _ \<Rightarrow> raw_text failing_env f)])"
    by blast
  with h lg n show ?thesis by (simp add: demo_world_def)
qed

text \<open>
  C6. After a successful conversion the converted file has a variable
  \<^verbatim>\<open>remap_matrix\<close> over the dimensions \<^verbatim>\<open>num_links\<close> and \<^verbatim>\<open>num_wgts\<close>
  whose first column is, element for element, the array \<^verbatim>\<open>S\<close> of the original file;
  the original file is gone, and the returned path is that of the converted file. The
  original file is a weight file: \<^verbatim>\<open>S\<close> has one value for each link. The paths are
  plain, so that the command line splits into the tokens the script means.
\<close>

theorem convert_first_column:
  assumes ok: "convert_to_scrip_output env (Some wp) w = (Inr p, w')"
    and old: "fs w wp = Some (Nc f_old)"
    and pw: "plain wp" and pt: "\<forall>j. plain (tmp_path env ''.nc'' j)"
    and S: "find_var ''S'' f_old = Some S"
    and ns: "dim_pos ''n_s'' (nc_dims f_old) = Some i"
    and len: "length (var_data S) = snd (nc_dims f_old ! i)"
  shows "fs w' wp = None
       \<and> (\<exists>f v nl nw. fs w' p = Some (Nc f) \<and> find_var ''remap_matrix'' f = Some v
            \<and> var_dims v = [nl, nw]
            \<and> dim_pos ''num_links'' (nc_dims f) = Some nl
            \<and> dim_pos ''num_wgts'' (nc_dims f) = Some nw
            \<and> length (var_data v) = dim_size f nl * dim_size f nw
            \<and> column 0 (dim_size f nw) (var_data v) = var_data S)"
proof -
  from convert_plain [OF ok old pw pt] obtain f_ren f1 idx S' f2 where
    ren: "apply_renames rename_table f_old = Some f_ren"
    and cv: "createVariable ''remap_matrix'' [''num_links'', ''num_wgts''] f_ren = Inr (f1, idx)"
    and gv: "getvar ''S'' f_old = Inr S'" and av: "assign_column0 idx (var_data S') f1 = Inr f2"
    and new: "fs w' p = Some (Nc f2)" and gone: "fs w' wp = None"
    by blast
  from gv S have S': "S' = S" by (simp add: getvar_def)
  from apply_renames_dims [OF ren] have
    dims: "nc_dims f_ren = map (\<lambda>(n, k). (subst dim_table n, k)) (nc_dims f_old)"
    and news: "snd ` set dim_table \<inter> dim_names f_old = {}"
    by (simp_all add: pairs_rename_table dim_table_disjoint)
  from news have nl: "''num_links'' \<notin> fst ` set (nc_dims f_old)"
    by (auto simp: dim_table_def dim_names_def)
  have "\<forall>n\<in>fst ` set (nc_dims f_old). (subst dim_table n = ''num_links'') = (n = ''n_s'')"
  proof
    fix n assume "n \<in> fst ` set (nc_dims f_old)"
    with nl have "''num_links'' \<noteq> n" by auto
    then show "(subst dim_table n = ''num_links'') = (n = ''n_s'')" by (rule links_renamed)
  qed
  then have "dim_pos ''num_links'' (map (\<lambda>(n, k). (subst dim_table n, k)) (nc_dims f_old)) =
      dim_pos ''n_s'' (nc_dims f_old)"
    by (rule dim_pos_subst)
  with ns have pos: "dim_pos ''num_links'' (nc_dims f_ren) = Some i"
    by (simp add: dims)
  from dim_pos_Some [OF ns] have i: "i < length (nc_dims f_old)" by simp
  have size: "dim_size f_ren i = snd (nc_dims f_old ! i)"
    using i by (simp add: dim_size_def dims case_prod_unfold)
  from cv obtain i' j where pi: "dim_pos ''num_links'' (nc_dims f_ren) = Some i'"
    and pj: "dim_pos ''num_wgts'' (nc_dims f_ren) = Some j"
    and none: "find_var ''remap_matrix'' f_ren = None" and idx: "idx = length (nc_vars f_ren)"
    and d1: "nc_dims f1 = nc_dims f_ren"
    and v1: "nc_vars f1 = nc_vars f_ren @ [\<lparr>var_name = ''remap_matrix'', var_dims = [i', j],
           var_data = replicate (dim_size f_ren i' * dim_size f_ren j) None\<rparr>]"
    by (rule createVariable_Inr)
  from pi pos have i': "i' = i" by simp
  let ?v0 = "\<lparr>var_name = ''remap_matrix'', var_dims = [i, j],
           var_data = replicate (dim_size f_ren i * dim_size f_ren j) None :: 'a option list\<rparr>"
  have at: "nc_vars f1 ! idx = ?v0" using v1 idx i' by simp
  have ds: "dim_size f1 = dim_size f_ren" using d1 by (simp add: dim_size_def fun_eq_iff)
  from assign_column0_Inr [OF av] obtain vals' where d2: "nc_dims f2 = nc_dims f1"
    and bc: "broadcast (dim_size f_ren i) (var_data S) = Inr vals'"
    and nz: "dim_size f_ren j \<noteq> 0"
    and v2: "nc_vars f2 = (nc_vars f1)[idx := ?v0\<lparr>var_data :=
          set_column0 (dim_size f_ren j) vals' (var_data ?v0)\<rparr>]"
    unfolding at ds S' by auto
  from broadcast_Inr [OF bc] size len have vals: "vals' = var_data S" by simp
  let ?v = "?v0\<lparr>var_data := set_column0 (dim_size f_ren j) (var_data S) (var_data ?v0)\<rparr>"
  have v2': "nc_vars f2 = nc_vars f_ren @ [?v]"
    using v2 v1 idx vals i' by simp
  have fv: "find_var ''remap_matrix'' f2 = Some ?v"
    using none v2' by (rule find_var_last) simp
  have ds2: "dim_size f2 = dim_size f_ren" using d1 d2 by (simp add: dim_size_def fun_eq_iff)
  have col: "column 0 (dim_size f_ren j) (var_data ?v) = var_data S"
    using nz size len by (simp add: column0_set_column0 [where nr = "dim_size f_ren i"])
  have lenv: "length (var_data ?v) = dim_size f_ren i * dim_size f_ren j"
    by (simp add: set_column0_def)
  show ?thesis
    apply (rule conjI [OF gone])
    apply (rule exI [of _ f2], rule exI [of _ ?v], rule exI [of _ i], rule exI [of _ j])
    using new fv pos pj d1 d2 ds2 col lenv apply simp
    done
qed

theorem convert_first_column_witness:
  "convert_to_scrip_output demo_env (Some ''/data/w.nc'') conv_world =
     (Inr ''/tmp/tmp0.nc'', snd (convert_to_scrip_output demo_env (Some ''/data/w.nc'') conv_world))
   \<and> fs conv_world ''/data/w.nc'' = Some (Nc demo_weights)
   \<and> plain ''/data/w.nc'' \<and> (\<forall>j. plain (tmp_path demo_env ''.nc'' j))
   \<and> find_var ''S'' demo_weights =
       Some \<lparr>var_name = ''S'', var_dims = [2], var_data = [Some 7, Some 8, Some 9]\<rparr>
   \<and> dim_pos ''n_s'' (nc_dims demo_weights) = Some 2
   \<and> fs (snd (convert_to_scrip_output demo_env (Some ''/data/w.nc'') conv_world)) ''/data/w.nc'' = None
   \<and> (\<exists>f v nw. fs (snd (convert_to_scrip_output demo_env (Some ''/data/w.nc'') conv_world))
                    ''/tmp/tmp0.nc'' = Some (Nc f)
          \<and> find_var ''remap_matrix'' f = Some v
          \<and> column 0 (dim_size f nw) (var_data v) = [Some 7, Some 8, Some 9])"
proof -
  have "fst (convert_to_scrip_output demo_env (Some ''/data/w.nc'') conv_world) = Inr ''/tmp/tmp0.nc''"
    by code_simp
  then have h1: "convert_to_scrip_output demo_env (Some ''/data/w.nc'') conv_world =
     (Inr ''/tmp/tmp0.nc'', snd (convert_to_scrip_output demo_env (Some ''/data/w.nc'') conv_world))"
    by (simp add: prod_eq_iff)
  have h2: "fs conv_world ''/data/w.nc'' = Some (Nc demo_weights)"
    by (simp add: conv_world_def)
  have h3: "plain ''/data/w.nc''"
    by (simp add: plain_def is_space_def squote_def dquote_def backslash_def)
  have h4: "\<forall>j. plain (tmp_path demo_env ''.nc'' j)"
    by (simp add: demo_tmp_plain)
  have h5: "find_var ''S'' demo_weights =
       Some \<lparr>var_name = ''S'', var_dims = [2], var_data = [Some 7, Some 8, Some 9]\<rparr>"
    by code_simp
  have h6: "dim_pos ''n_s'' (nc_dims demo_weights) = Some 2"
    by code_simp
  have h7: "length (var_data \<lparr>var_name = ''S'', var_dims = [2], var_data = [Some 7, Some 8, Some (9::int)]\<rparr>) =
      snd (nc_dims demo_weights ! 2)"
    by code_simp
  from convert_first_column [OF h1 h2 h3 h4 h5 h6 h7] h1 h2 h3 h4 h5 h6 show ?thesis
    by (simp only: ncvar.simps) blast
qed

text \<open>
  C7, as amended. The command of line 36 renames 21 names, not 16: 5 dimensions and 16
  variables; no old name is a new name and no name occurs twice, so the table is a
  bijection between the old names and the new ones. After a successful conversion of a
  weight file (with plain paths) the dimensions and variables of the converted file are
  those of the original file under the table, in the same order and with the same
  contents, followed by the new variable \<^verbatim>\<open>remap_matrix\<close>: every old name of the table
  is absent, every new name is present, and what the table does not name is unchanged.
\<close>

theorem conversion_renames:
  assumes ok: "convert_to_scrip_output env (Some wp) w = (Inr p, w')"
    and old: "fs w wp = Some (Nc f_old)"
    and pw: "plain wp" and pt: "\<forall>j. plain (tmp_path env ''.nc'' j)"
  shows "\<exists>f rm. fs w' p = Some (Nc f)
       \<and> nc_dims f = map (\<lambda>(n, k). (subst dim_table n, k)) (nc_dims f_old)
       \<and> nc_vars f = map (\<lambda>v. v\<lparr>var_name := subst var_table (var_name v)\<rparr>) (nc_vars f_old) @ [rm]
       \<and> var_name rm = ''remap_matrix''
       \<and> (\<forall>(a, b)\<in>set dim_table. a \<notin> dim_names f \<and> b \<in> dim_names f)
       \<and> (\<forall>(a, b)\<in>set var_table. a \<notin> var_names f \<and> b \<in> var_names f)
       \<and> (\<forall>d\<in>set (nc_dims f_old). fst d \<notin> fst ` set dim_table \<longrightarrow> d \<in> set (nc_dims f))
       \<and> (\<forall>v\<in>set (nc_vars f_old). var_name v \<notin> fst ` set var_table \<longrightarrow> v \<in> set (nc_vars f))
       \<and> length (dim_table @ var_table) = 21
       \<and> distinct (map fst dim_table) \<and> distinct (map snd dim_table)
       \<and> distinct (map fst var_table) \<and> distinct (map snd var_table)"
proof -
  from convert_plain [OF ok old pw pt] obtain f_ren f1 idx and S :: "'a ncvar" and f2 where
    ren: "apply_renames rename_table f_old = Some f_ren"
    and cv: "createVariable ''remap_matrix'' [''num_links'', ''num_wgts''] f_ren = Inr (f1, idx)"
    and av: "assign_column0 idx (var_data S) f1 = Inr f2"
    and new: "fs w' p = Some (Nc f2)"
    by blast
  from apply_renames_dims [OF ren] have
    dims: "nc_dims f_ren = map (\<lambda>(n, k). (subst dim_table n, k)) (nc_dims f_old)"
    and dolds: "fst ` set dim_table \<subseteq> dim_names f_old"
    by (simp_all add: pairs_rename_table dim_table_disjoint)
  from apply_renames_vars [OF ren] have
    vars: "nc_vars f_ren = map (\<lambda>v. v\<lparr>var_name := subst var_table (var_name v)\<rparr>) (nc_vars f_old)"
    and volds: "fst ` set var_table \<subseteq> var_names f_old"
    by (simp_all add: pairs_rename_table var_table_disjoint)
  from cv obtain i j where idx: "idx = length (nc_vars f_ren)"
    and d1: "nc_dims f1 = nc_dims f_ren"
    and v1: "nc_vars f1 = nc_vars f_ren @ [\<lparr>var_name = ''remap_matrix'', var_dims = [i, j],
           var_data = replicate (dim_size f_ren i * dim_size f_ren j) None\<rparr>]"
    by (rule createVariable_Inr)
  from assign_column0_Inr [OF av] obtain rm where d2: "nc_dims f2 = nc_dims f_ren"
    and v2: "nc_vars f2 = nc_vars f_ren @ [rm]" and rm: "var_name rm = ''remap_matrix''"
    using d1 v1 idx by auto
  have dn: "dim_names f2 = subst dim_table ` dim_names f_old"
    by (simp add: dim_names_def d2 dims image_image case_prod_unfold)
  have vn: "var_names f2 = insert ''remap_matrix'' (subst var_table ` var_names f_old)"
    by (simp add: var_names_def v2 vars rm image_image)
  have a1: "\<forall>(a, b)\<in>set dim_table. a \<notin> dim_names f2 \<and> b \<in> dim_names f2"
  proof (clarify, rule conjI)
    fix a b assume ab: "(a, b) \<in> set dim_table"
    show "a \<notin> dim_names f2"
      unfolding dn using subst_not_old [OF dim_table_disjoint] ab by force
    from ab dolds have "a \<in> dim_names f_old" by force
    moreover have "subst dim_table a = b" using table_facts(2) ab by (rule subst_old)
    ultimately show "b \<in> dim_names f2" unfolding dn by blast
  qed
  have a2: "\<forall>(a, b)\<in>set var_table. a \<notin> var_names f2 \<and> b \<in> var_names f2"
  proof (clarify, rule conjI)
    fix a b assume ab: "(a, b) \<in> set var_table"
    have "a \<noteq> ''remap_matrix''" using ab by (auto simp: var_table_def)
    then show "a \<notin> var_names f2"
      unfolding vn using subst_not_old [OF var_table_disjoint] ab by force
    from ab volds have "a \<in> var_names f_old" by force
    moreover have "subst var_table a = b" using table_facts(4) ab by (rule subst_old)
    ultimately show "b \<in> var_names f2" unfolding vn by blast
  qed
  have a3: "\<forall>d\<in>set (nc_dims f_old). fst d \<notin> fst ` set dim_table \<longrightarrow> d \<in> set (nc_dims f2)"
  proof (intro ballI impI)
    fix d assume d: "d \<in> set (nc_dims f_old)" "fst d \<notin> fst ` set dim_table"
    then have "(\<lambda>(n, k). (subst dim_table n, k)) d = d"
      by (simp add: case_prod_unfold subst_other)
    with d(1) show "d \<in> set (nc_dims f2)" unfolding d2 dims by force
  qed
  have a4: "\<forall>v\<in>set (nc_vars f_old). var_name v \<notin> fst ` set var_table \<longrightarrow> v \<in> set (nc_vars f2)"
  proof (intro ballI impI)
    fix v assume v: "v \<in> set (nc_vars f_old)" "var_name v \<notin> fst ` set var_table"
    then have "v\<lparr>var_name := subst var_table (var_name v)\<rparr> = v"
      by (simp add: subst_other)
    with v(1) show "v \<in> set (nc_vars f2)" unfolding v2 vars by force
  qed
  show ?thesis
    apply (rule exI [of _ f2], rule exI [of _ rm])
    using new d2 dims v2 vars rm a1 a2 a3 a4 table_facts apply simp
    done
qed

theorem conversion_renames_witness:
  "convert_to_scrip_output demo_env (Some ''/data/w.nc'') conv_world =
     (Inr ''/tmp/tmp0.nc'', snd (convert_to_scrip_output demo_env (Some ''/data/w.nc'') conv_world))
   \<and> fs conv_world ''/data/w.nc'' = Some (Nc demo_weights)
   \<and> plain ''/data/w.nc'' \<and> (\<forall>j. plain (tmp_path demo_env ''.nc'' j))
   \<and> (\<exists>f. fs (snd (convert_to_scrip_output demo_env (Some ''/data/w.nc'') conv_world))
               ''/tmp/tmp0.nc'' = Some (Nc f)
          \<and> (\<forall>(a, b)\<in>set dim_table. a \<notin> dim_names f \<and> b \<in> dim_names f)
          \<and> (\<forall>(a, b)\<in>set var_table. a \<notin> var_names f \<and> b \<in> var_names f))"
proof -
  have "fst (convert_to_scrip_output demo_env (Some ''/data/w.nc'') conv_world) = Inr ''/tmp/tmp0.nc''"
    by code_simp
  then have h1: "convert_to_scrip_output demo_env (Some ''/data/w.nc'') conv_world =
     (Inr ''/tmp/tmp0.nc'', snd (convert_to_scrip_output demo_env (Some ''/data/w.nc'') conv_world))"
    by (simp add: prod_eq_iff)
  have h2: "fs conv_world ''/data/w.nc'' = Some (Nc demo_weights)"
    by (simp add: conv_world_def)
  have h3: "plain ''/data/w.nc''"
    by (simp add: plain_def is_space_def squote_def dquote_def backslash_def)
  have h4: "\<forall>j. plain (tmp_path demo_env ''.nc'' j)"
    by (simp add: demo_tmp_plain)
  from conversion_renames [OF h1 h2 h3 h4] h1 h2 h3 h4 show ?thesis
    by blast
qed

theorem rename_table_has_21_entries:
  "shlex_split (rename_cmd ''in.nc'' ''out.nc'') =
      Inr (''ncrename'' # concat (map rename_flag rename_table) @ [''in.nc'', ''out.nc''])
   \<and> length rename_table = 21 \<and> length rename_table \<noteq> 16"
  by code_simp

text \<open>
  C9. If the rename utility exits with a code other than 0, the converter prints the
  output of the utility to the error stream and goes on: it is the NetCDF step, run on
  the world after the print, that decides the result. No exception comes from the rename
  step; the failed run has left no renamed file, so the NetCDF step raises.
\<close>

theorem rename_failure_continues:
  assumes m: "mkstemp env ''.nc'' w = (Inr n, w1)"
    and sp: "shlex_split (rename_cmd (format_opt q) n) = Inr cmd"
    and fail: "check_output env cmd (snd (os_remove n w1)) = (Inl (CalledProcessError rc out), w2)"
  shows "stderr (eprint (Line out) w2) = stderr w @ [Line out]
       \<and> convert_to_scrip_output env q w =
           bind (fix_remap_matrix q n) (\<lambda>_.
           bind (case q of
                   None \<Rightarrow> raise (TypeError ''remove: path should be string, not NoneType'')
                 | Some p \<Rightarrow> os_remove p) (\<lambda>_.
           ret n)) (eprint (Line out) w2)
       \<and> (\<exists>e. convert_to_scrip_output env q w = (Inl e, eprint (Line out) w2)
              \<and> fix_remap_matrix q n (eprint (Line out) w2) = (Inl e, eprint (Line out) w2))"
proof -
  from mkstemp_Inr [OF m] obtain k where fresh: "fs w n = None"
    and w1: "w1 = w\<lparr>fs := (fs w)(n \<mapsto> Text []), rng := k\<rparr>"
    by blast
  let ?w1' = "w1\<lparr>fs := (fs w1)(n := None)\<rparr>"
  have rm: "os_remove n w1 = (Inr (), ?w1')" using w1 by (simp add: os_remove_def)
  have fs1: "fs ?w1' = fs w" and e1: "stderr ?w1' = stderr w"
    using w1 fresh by (simp_all add: fun_upd_idem)
  from fail rm have fail': "check_output env cmd ?w1' = (Inl (CalledProcessError rc out), w2)"
    by simp
  have tr: "try_rename env (rename_cmd (format_opt q) n) ?w1' = (Inr (), eprint (Line out) w2)"
    using sp fail' by (simp add: try_rename_def comp_simps)
  have eq: "convert_to_scrip_output env q w =
           bind (fix_remap_matrix q n) (\<lambda>_.
           bind (case q of
                   None \<Rightarrow> raise (TypeError ''remove: path should be string, not NoneType'')
                 | Some p \<Rightarrow> os_remove p) (\<lambda>_.
           ret n)) (eprint (Line out) w2)"
    using m rm tr by (simp add: convert_to_scrip_output_def comp_simps)
  from sp obtain argv where cmd: "cmd = ''ncrename'' # argv"
    by (auto simp: shlex_rename_cmd split: sum.splits)
  from fail' cmd have "run_ncrename env argv ?w1' = (Inl (CalledProcessError rc out), w2)"
    by (simp add: check_output_def)
  with run_ncrename_cases [of env argv ?w1']
  have w2: "w2 = ?w1'\<lparr>calls := calls ?w1' @ [Spawn (''ncrename'' # argv)]\<rparr>"
    by auto
  have gone: "fs (eprint (Line out) w2) n = None" and err: "stderr (eprint (Line out) w2) = stderr w @ [Line out]"
    using w2 fs1 e1 fresh by (simp_all add: eprint_def)
  from fix_remap_matrix_missing [OF gone, of q] obtain e where
    fx: "fix_remap_matrix q n (eprint (Line out) w2) = (Inl e, eprint (Line out) w2)"
    by blast
  with eq have "convert_to_scrip_output env q w = (Inl e, eprint (Line out) w2)"
    by (simp add: comp_simps)
  with err eq fx show ?thesis by blast
qed

theorem rename_failure_continues_witness:
  "mkstemp demo_env ''.nc'' demo_world = (Inr ''/tmp/tmp0.nc'', snd (mkstemp demo_env ''.nc'' demo_world))
   \<and> shlex_split (rename_cmd (format_opt (Some ''/missing.nc'')) ''/tmp/tmp0.nc'') =
       Inr (''ncrename'' # concat (map rename_flag rename_table) @ [''/missing.nc'', ''/tmp/tmp0.nc''])
   \<and> fst (check_output demo_env
             (''ncrename'' # concat (map rename_flag rename_table) @ [''/missing.nc'', ''/tmp/tmp0.nc''])
             (snd (os_remove ''/tmp/tmp0.nc'' (snd (mkstemp demo_env ''.nc'' demo_world))))) =
       Inl (CalledProcessError 1 [])
   \<and> stderr (snd (convert_to_scrip_output demo_env (Some ''/missing.nc'') demo_world)) = [Line []]
   \<and> (\<exists>e. fst (convert_to_scrip_output demo_env (Some ''/missing.nc'') demo_world) = Inl e)"
proof -
  have "fst (mkstemp demo_env ''.nc'' demo_world) = Inr ''/tmp/tmp0.nc''"
    by code_simp
  then have h1: "mkstemp demo_env ''.nc'' demo_world =
      (Inr ''/tmp/tmp0.nc'', snd (mkstemp demo_env ''.nc'' demo_world))"
    by (simp add: prod_eq_iff)
  have h2: "shlex_split (rename_cmd (format_opt (Some ''/missing.nc'')) ''/tmp/tmp0.nc'') =
       Inr (''ncrename'' # concat (map rename_flag rename_table) @ [''/missing.nc'', ''/tmp/tmp0.nc''])"
    by code_simp
  let ?c = "check_output demo_env
             (''ncrename'' # concat (map rename_flag rename_table) @ [''/missing.nc'', ''/tmp/tmp0.nc''])
             (snd (os_remove ''/tmp/tmp0.nc'' (snd (mkstemp demo_env ''.nc'' demo_world))))"
  have f: "fst ?c = Inl (CalledProcessError 1 [])"
    by code_simp
  then have h3: "?c = (Inl (CalledProcessError 1 []), snd ?c)"
    by (simp add: prod_eq_iff)
  note r = rename_failure_continues [OF h1 h2 h3]
  from r obtain e where
    c: "convert_to_scrip_output demo_env (Some ''/missing.nc'') demo_world =
          (Inl e, eprint (Line []) (snd ?c))"
    by blast
  from r have "stderr (eprint (Line []) (snd ?c)) = stderr demo_world @ [Line []]"
    by blast
  with c have s: "stderr (snd (convert_to_scrip_output demo_env (Some ''/missing.nc'') demo_world)) =
      [Line []]"
    by (simp add: demo_world_def)
  from c have x: "\<exists>e. fst (convert_to_scrip_output demo_env (Some ''/missing.nc'') demo_world) = Inl e"
    by simp
  from h1 h2 f s x show ?thesis by (intro conjI)
qed



text \<open>
  C10. The driver calls \<open>create_weights\<close> with the method only, so the three flags have
  their defaults in every combination. On the calls of a whole run of \<open>main\<close>, whatever
  the arguments and however the run ends: every atmosphere grid is written with a mask of
  zeros, every ocean grid with its own mask, and every command line of the weight
  generator ends with the output path, without \<^verbatim>\<open>--ignore_unmapped\<close> after it.
\<close>

theorem driver_passes_default_flags:
  assumes "\<forall>c\<in>set (calls w). default_call c"
  shows "\<forall>c\<in>set (calls (snd (main env a w))). default_call c"
  using assms keeps_main_default [of env a] by (simp add: keeps_def calls_ok_def list_all_iff)

theorem driver_passes_default_flags_witness:
  "list_all default_call (calls demo_world)
   \<and> list_all default_call (calls (snd (main demo_env demo_args demo_world)))
   \<and> length (calls (snd (main demo_env demo_args demo_world))) = 4"
proof -
  have h: "\<forall>c\<in>set (calls demo_world). default_call c"
    by (simp add: demo_world_def)
  have n: "length (calls (snd (main demo_env demo_args demo_world))) = 4"
    by code_simp
  from driver_passes_default_flags [OF h, of demo_env demo_args] h n show ?thesis
    by (simp add: list_all_iff)
qed

end
